theory Spec2Isabelle
  imports Main
begin

section \<open>JavaScript values and strings\<close>

text \<open>
  A row of the \<open>users\<close> table and the candidate object handed to signup are plain
  JavaScript objects: finite maps from property names to JSON values. A property that is
  absent reads as \<open>undefined\<close>, which is \<open>None\<close> here.
\<close>

datatype jsval = JNull | JBool bool | JNum int | JStr string

type_synonym jsobj = "string \<rightharpoonup> jsval"

text \<open>JavaScript truthiness, as used by \<open>!x\<close> and \<open>x || y\<close>.\<close>

fun truthy :: "jsval option \<Rightarrow> bool" where
  "truthy None = False"
| "truthy (Some JNull) = False"
| "truthy (Some (JBool b)) = b"
| "truthy (Some (JNum n)) = (n \<noteq> 0)"
| "truthy (Some (JStr s)) = (s \<noteq> [])"

text \<open>
  \<open>String.prototype.toLowerCase\<close> on the ASCII range: the letters \<open>A\<close>..\<open>Z\<close> move to
  \<open>a\<close>..\<open>z\<close>, every other character stays. The function of the language (and the
  case folding of \<open>ILIKE\<close>) also folds the cased letters beyond ASCII; this model is exact
  on ASCII strings only.
\<close>

definition lower_char :: "char \<Rightarrow> char" where
  "lower_char c =
     (let n = (of_char c :: nat) in if 65 \<le> n \<and> n \<le> 90 then char_of (n + 32) else c)"

definition toLowerCase :: "string \<Rightarrow> string" where
  "toLowerCase s = map lower_char s"

text \<open>Decimal rendering of a non-negative integer, as a template literal prints it.\<close>

definition digit :: "nat \<Rightarrow> char" where
  "digit d = char_of (48 + d)"

fun dec :: "nat \<Rightarrow> string" where
  "dec n = (if n < 10 then [digit n] else dec (n div 10) @ [digit (n mod 10)])"

declare dec.simps [simp del]

definition dec_int :: "int \<Rightarrow> string" where
  "dec_int i = (if i < 0 then CHR ''-'' # dec (nat (- i)) else dec (nat i))"

text \<open>
  \<open>String(v)\<close>: how a value is rendered when it is put into a query filter. A number is
  an integer printed digit by digit, which is what the language does for the integers
  it holds exactly, those of magnitude up to \<open>2^53\<close> (\<open>exact_in_js\<close>); a larger number of
  a row is rounded when the client parses the answer of the store, and is outside this
  model.
\<close>

definition exact_in_js :: "jsval option \<Rightarrow> bool" where
  "exact_in_js v = (case v of Some (JNum n) \<Rightarrow> \<bar>n\<bar> \<le> 9007199254740992 | _ \<Rightarrow> True)"


fun js_string :: "jsval option \<Rightarrow> string" where
  "js_string None = ''undefined''"
| "js_string (Some JNull) = ''null''"
| "js_string (Some (JBool b)) = (if b then ''true'' else ''false'')"
| "js_string (Some (JNum n)) = dec_int n"
| "js_string (Some (JStr s)) = s"

section \<open>The store collaborator\<close>

text \<open>
  The Supabase client answers every query with an object \<open>{data, error}\<close> and does not
  throw: a request that fails is answered with an error object. The error object carries
  a message and a code.
\<close>

record pg_error =
  message :: string
  code :: string

record 'a response =
  data :: "'a option"
  error :: "pg_error option"

definition ok :: "'a \<Rightarrow> 'a response" where
  "ok x = \<lparr>data = Some x, error = None\<rparr>"

definition failed :: "pg_error \<Rightarrow> 'a response" where
  "failed e = \<lparr>data = None, error = Some e\<rparr>"

definition no_data :: "'a response" where
  "no_data = \<lparr>data = None, error = None\<rparr>"

text \<open>
  The state of the store: the rows of \<open>users\<close>, in insertion order. Every request to
  the store may fail on its way (the store is unreachable, or refuses the client); the
  operations below take as their first argument the error with which the request at hand
  fails, \<open>None\<close> when it goes through.
\<close>

record store =
  rows :: "jsobj list"

text \<open>
  The pattern language of \<open>LIKE\<close>: \<open>%\<close> stands for any sequence of characters, \<open>_\<close> for
  any single character, a backslash takes the next character literally, and everything
  else stands for itself. The first argument is the pattern, the second the text. (A
  pattern that ends in a lone backslash, which the database rejects, matches nothing
  here.)
\<close>

fun like_match :: "string \<Rightarrow> string \<Rightarrow> bool" where
  "like_match [] [] = True"
| "like_match [] (c # cs) = False"
| "like_match (p # ps) [] = (p = CHR ''%'' \<and> like_match ps [])"
| "like_match (p # ps) (c # cs) =
     (if p = CHR ''%'' then like_match ps (c # cs) \<or> like_match (p # ps) cs
      else if p = CHR ''_'' then like_match ps cs
      else if p = CHR 0x5C then
        (case ps of [] \<Rightarrow> False | q # qs \<Rightarrow> q = c \<and> like_match qs cs)
      else p = c \<and> like_match ps cs)"

text \<open>
  \<open>.ilike(column, pattern)\<close>: \<open>LIKE\<close> without regard to case, on a text column. The REST
  layer turns every \<open>*\<close> of the pattern into \<open>%\<close> before the database sees it, an escaped
  one as well.
\<close>

definition stars :: "string \<Rightarrow> string" where
  "stars pat = map (\<lambda>c. if c = CHR ''*'' then CHR ''%'' else c) pat"

definition ilike_filter :: "string \<Rightarrow> string \<Rightarrow> jsobj \<Rightarrow> bool" where
  "ilike_filter col pat r =
     (case r col of
        Some (JStr s) \<Rightarrow> like_match (toLowerCase (stars pat)) (toLowerCase s)
      | _ \<Rightarrow> False)"

text \<open>
  \<open>.eq(column, value)\<close>: the value travels as text in the filter and is compared with the
  column; a column that is \<open>NULL\<close> equals nothing.
\<close>

definition eq_filter :: "string \<Rightarrow> jsval option \<Rightarrow> jsobj \<Rightarrow> bool" where
  "eq_filter col v r =
     (case r col of None \<Rightarrow> False | Some JNull \<Rightarrow> False
      | Some x \<Rightarrow> js_string (Some x) = js_string v)"

text \<open>
  \<open>.select(columns)\<close> with a filter: the matching rows, each cut down to the selected
  columns (\<open>None\<close> selects \<open>*\<close>).
\<close>

definition project :: "string option \<Rightarrow> jsobj \<Rightarrow> jsobj" where
  "project col r = (case col of None \<Rightarrow> r | Some c \<Rightarrow> r |` {c})"

definition select_where ::
  "pg_error option \<Rightarrow> store \<Rightarrow> string option \<Rightarrow> (jsobj \<Rightarrow> bool) \<Rightarrow> jsobj list response" where
  "select_where fault st col f =
     (case fault of Some e \<Rightarrow> failed e
      | None \<Rightarrow> ok (map (project col) (filter f (rows st))))"

text \<open>
  \<open>.single()\<close> asks for exactly one row and \<open>.maybeSingle()\<close> for at most one; any other
  count is answered with the error \<open>PGRST116\<close> and no data, and an error of the request
  itself is passed on.
\<close>

definition pgrst116 :: pg_error where
  "pgrst116 = \<lparr>message = ''JSON object requested, multiple (or no) rows returned'',
               code = ''PGRST116''\<rparr>"

definition single :: "jsobj list response \<Rightarrow> jsobj response" where
  "single resp =
     (case error resp of Some e \<Rightarrow> failed e
      | None \<Rightarrow> (case data resp of Some [r] \<Rightarrow> ok r | _ \<Rightarrow> failed pgrst116))"

definition maybeSingle :: "jsobj list response \<Rightarrow> jsobj response" where
  "maybeSingle resp =
     (case error resp of Some e \<Rightarrow> failed e
      | None \<Rightarrow> (case data resp of Some [] \<Rightarrow> no_data | Some [r] \<Rightarrow> ok r
                 | _ \<Rightarrow> failed pgrst116))"

text \<open>\<open>.insert([row])\<close> appends the row; \<open>.update(patch).eq(column, value)\<close> overwrites the
  patched properties of every matching row. A request that fails leaves the store as it
  is, and the answer is its error.\<close>

definition insert_row :: "pg_error option \<Rightarrow> store \<Rightarrow> jsobj \<Rightarrow> pg_error option \<times> store" where
  "insert_row fault st r =
     (case fault of Some e \<Rightarrow> (Some e, st)
      | None \<Rightarrow> (None, st\<lparr>rows := rows st @ [r]\<rparr>))"

definition update_where ::
  "pg_error option \<Rightarrow> store \<Rightarrow> jsobj \<Rightarrow> (jsobj \<Rightarrow> bool) \<Rightarrow> pg_error option \<times> store" where
  "update_where fault st patch f =
     (case fault of Some e \<Rightarrow> (Some e, st)
      | None \<Rightarrow> (None, st\<lparr>rows := map (\<lambda>r. if f r then r ++ patch else r) (rows st)\<rparr>))"

section \<open>Dates\<close>

text \<open>
  A \<open>Date\<close> in its civil form: the year, the month from 0 to 11, the day of the month
  from 1, and the milliseconds since midnight. \<open>getMonth\<close> and \<open>setMonth\<close> work on the
  fields of the local time zone of the process and \<open>toISOString\<close> prints those of UTC;
  the model has one set of fields, so it is the program run with the time zone UTC.
\<close>

record jsdate =
  year :: int
  month :: nat
  day :: nat
  msec :: nat

definition leap :: "int \<Rightarrow> bool" where
  "leap y = (y mod 4 = 0 \<and> (y mod 100 \<noteq> 0 \<or> y mod 400 = 0))"

definition days_in_month :: "int \<Rightarrow> nat \<Rightarrow> nat" where
  "days_in_month y m =
     (if m = 1 then (if leap y then 29 else 28)
      else if m = 3 \<or> m = 5 \<or> m = 8 \<or> m = 10 then 30 else 31)"

text \<open>
  \<open>MakeDay(year, month, date)\<close> is the first day of the month plus \<open>date - 1\<close> days: a
  day past the end of the month runs on into the months that follow.
\<close>

function roll :: "int \<Rightarrow> nat \<Rightarrow> nat \<Rightarrow> int \<times> nat \<times> nat" where
  "roll y m d =
     (if days_in_month y m < d
      then roll (if m = 11 then y + 1 else y) (if m = 11 then 0 else m + 1)
             (d - days_in_month y m)
      else (y, m, d))"
  by pat_completeness auto
termination
  by (relation "measure (\<lambda>(y, m, d). d)") (auto simp: days_in_month_def)

declare roll.simps [simp del]

definition getMonth :: "jsdate \<Rightarrow> nat" where
  "getMonth t = month t"

definition setMonth :: "jsdate \<Rightarrow> int \<Rightarrow> jsdate" where
  "setMonth t m =
     (case roll (year t + m div 12) (nat (m mod 12)) (day t) of
        (y, mn, d) \<Rightarrow> t\<lparr>year := y, month := mn, day := d\<rparr>)"

definition pad :: "nat \<Rightarrow> nat \<Rightarrow> string" where
  "pad w n = replicate (w - length (dec n)) (CHR ''0'') @ dec n"

definition toISOString :: "jsdate \<Rightarrow> string" where
  "toISOString t =
     (if 0 \<le> year t \<and> year t \<le> 9999 then pad 4 (nat (year t))
      else (if year t < 0 then ''-'' else ''+'') @ pad 6 (nat \<bar>year t\<bar>))
     @ ''-'' @ pad 2 (month t + 1) @ ''-'' @ pad 2 (day t)
     @ ''T'' @ pad 2 (msec t div 3600000) @ '':'' @ pad 2 (msec t div 60000 mod 60)
     @ '':'' @ pad 2 (msec t div 1000 mod 60) @ ''.'' @ pad 3 (msec t mod 1000) @ ''Z''"

section \<open>The surroundings of a call\<close>

text \<open>
  What a call of one of the exported functions takes from its surroundings: the digest
  function of the bcrypt library, the salt it draws, the reading of the clock, and the
  fate of the requests to the store. Every function sends at most one reading request
  (its lookup) and then at most one writing request; \<open>lookup_fault\<close> and \<open>write_fault\<close>
  are the errors with which these fail, \<open>None\<close> for a request that goes through.
\<close>

record env =
  digest :: "string \<Rightarrow> string \<Rightarrow> string"
  salt :: string
  clock :: jsdate
  lookup_fault :: "pg_error option"
  write_fault :: "pg_error option"

section \<open>Username allocation\<close>

text \<open>
  \<open>ensureUniqueUsername\<close>. The key of a row in the set \<open>existing\<close> is
  \<open>(r.username || '').toLowerCase()\<close>; a truthy value that is not a string has no such
  method, and the call throws a \<open>TypeError\<close> (\<open>None\<close> here).
\<close>

definition username_key :: "jsobj \<Rightarrow> string option" where
  "username_key r =
     (case r ''username'' of
        Some (JStr s) \<Rightarrow> Some (toLowerCase s)
      | v \<Rightarrow> if truthy v then None else Some [])"

definition candidate :: "string \<Rightarrow> nat \<Rightarrow> string" where
  "candidate desired n = toLowerCase desired @ ''-'' @ dec n"

text \<open>
  The loop \<open>while (existing.has(`${desired.toLowerCase()}-${n}`)) n++\<close>, with the set
  \<open>existing\<close> as the list of its members. The counter is a natural number: a JavaScript
  number counts exactly far beyond the size of any snapshot.
\<close>

function probe :: "string list \<Rightarrow> string \<Rightarrow> nat \<Rightarrow> nat" where
  "probe existing desired n =
     (if candidate desired n \<in> set existing then probe existing desired (Suc n) else n)"
  by pat_completeness auto

lemma digit_inj: "a < 10 \<Longrightarrow> b < 10 \<Longrightarrow> digit a = digit b \<Longrightarrow> a = b"
proof -
  assume a: "a < 10" and b: "b < 10" and eq: "digit a = digit b"
  from eq have "(of_char (digit a) :: nat) = of_char (digit b)" by simp
  with a b show "a = b" by (simp add: digit_def)
qed

lemma dec_nonempty: "dec n \<noteq> []"
  by (subst dec.simps) simp

lemma dec_length_one: "length (dec n) = Suc 0 \<longleftrightarrow> n < 10"
  by (subst dec.simps) (simp add: dec_nonempty)

lemma dec_inj: "dec m = dec n \<Longrightarrow> m = n"
proof (induction m arbitrary: n rule: dec.induct)
  case (1 m)
  show ?case
  proof (cases "m < 10")
    case True
    then have "length (dec m) = Suc 0" by (simp add: dec_length_one)
    with "1.prems" have n: "n < 10" by (simp add: dec_length_one)
    from True n "1.prems" have "digit m = digit n"
      by (simp add: dec.simps [of m] dec.simps [of n])
    with True n show ?thesis by (rule digit_inj)
  next
    case False
    then have "length (dec m) \<noteq> Suc 0" by (simp add: dec_length_one)
    with "1.prems" have n: "\<not> n < 10" by (simp add: dec_length_one)
    from False n "1.prems" have eq: "dec (m div 10) = dec (n div 10)"
      and d: "digit (m mod 10) = digit (n mod 10)"
      by (simp_all add: dec.simps [of m] dec.simps [of n])
    from "1.IH" [OF False eq] have "m div 10 = n div 10" .
    moreover from d have "m mod 10 = n mod 10" by (auto intro: digit_inj)
    ultimately show ?thesis by (metis div_mult_mod_eq)
  qed
qed

lemma candidate_inj: "inj (candidate desired)"
  by (rule injI) (simp add: candidate_def dec_inj)

lemma finite_taken: "finite {m. candidate desired m \<in> set existing}"
proof -
  have "finite (candidate desired -` set existing)"
    by (rule finite_vimageI) (simp_all add: candidate_inj)
  then show ?thesis by (simp add: vimage_def)
qed

text \<open>
  The loop stops: the candidates are pairwise distinct, so only finitely many of them are
  in the set, and each turn leaves one fewer of them ahead.
\<close>

termination probe
proof (relation "measure (\<lambda>(existing, desired, n).
    card {m. n \<le> m \<and> candidate desired m \<in> set existing})")
  show "wf (measure (\<lambda>(existing, desired, n).
      card {m. n \<le> m \<and> candidate desired m \<in> set existing}))"
    by simp
next
  fix existing :: "string list" and desired :: string and n :: nat
  assume taken: "candidate desired n \<in> set existing"
  let ?A = "\<lambda>k. {m. k \<le> m \<and> candidate desired m \<in> set existing}"
  have fin: "finite (?A n)" using finite_taken [of desired existing] by simp
  have "n \<in> ?A n" and "n \<notin> ?A (Suc n)" and "?A (Suc n) \<subseteq> ?A n"
    using taken by auto
  then have "?A (Suc n) \<subset> ?A n" by blast
  with fin have "card (?A (Suc n)) < card (?A n)" by (rule psubset_card_mono)
  then show "((existing, desired, Suc n), (existing, desired, n))
      \<in> measure (\<lambda>(existing, desired, n).
          card {m. n \<le> m \<and> candidate desired m \<in> set existing})"
    by simp
qed

declare probe.simps [simp del]

datatype 'a outcome = Returned 'a | Threw string

definition prefix_query :: "env \<Rightarrow> store \<Rightarrow> string \<Rightarrow> jsobj list response" where
  "prefix_query ev st desired =
     select_where (lookup_fault ev) st (Some ''username'')
       (ilike_filter ''username'' (desired @ ''%''))"

definition ensureUniqueUsername :: "env \<Rightarrow> store \<Rightarrow> string \<Rightarrow> string outcome" where
  "ensureUniqueUsername ev st desired =
     (let resp = prefix_query ev st desired in
      if error resp \<noteq> None then Returned desired
      else case data resp of
        None \<Rightarrow> Returned desired
      | Some [] \<Rightarrow> Returned desired
      | Some rs \<Rightarrow>
          (case those (map username_key rs) of
             None \<Rightarrow> Threw ''TypeError''
           | Some existing \<Rightarrow>
               if toLowerCase desired \<notin> set existing then Returned desired
               else Returned (candidate desired (probe existing desired 2))))"

text \<open>The set \<open>existing\<close> that the function builds from the rows of a snapshot.\<close>

definition existing_names :: "jsobj list \<Rightarrow> string set" where
  "existing_names rs = {k. \<exists>r \<in> set rs. username_key r = Some k}"

section \<open>Password hashing\<close>

text \<open>
  The bcrypt library is used through \<open>hash(data, rounds)\<close> and \<open>compare(data, hash)\<close>.
  Its results have the modular crypt format: a setting of 29 characters, \<open>$2b$\<close>, two
  cost digits, \<open>$\<close> and 22 characters of salt, followed by the digest of the password
  under that setting. The digest function and the salt drawn for a call are parameters.
\<close>

definition SALT_ROUNDS :: nat where
  "SALT_ROUNDS = 12"

definition startsWith :: "string \<Rightarrow> string \<Rightarrow> bool" where
  "startsWith s p = (take (length p) s = p)"

definition gensalt :: "nat \<Rightarrow> string \<Rightarrow> string" where
  "gensalt rounds s = ''$2b$'' @ (if rounds < 10 then ''0'' else []) @ dec rounds @ ''$'' @ s"

definition is_digit :: "char \<Rightarrow> bool" where
  "is_digit c = (let n = (of_char c :: nat) in 48 \<le> n \<and> n \<le> 57)"

definition valid_setting :: "string \<Rightarrow> bool" where
  "valid_setting s =
     (29 \<le> length s \<and> startsWith s ''$2'' \<and> (s ! 2 = CHR ''a'' \<or> s ! 2 = CHR ''b'') \<and>
      s ! 3 = CHR ''$'' \<and> is_digit (s ! 4) \<and> is_digit (s ! 5) \<and> s ! 6 = CHR ''$'')"

definition crypt :: "(string \<Rightarrow> string \<Rightarrow> string) \<Rightarrow> string \<Rightarrow> string \<Rightarrow> string option" where
  "crypt dg pw setting =
     (if valid_setting setting then Some (take 29 setting @ dg (take 29 setting) pw) else None)"

text \<open>
  \<open>bcrypt.hash(data, rounds)\<close> draws a salt and rejects data that is missing or not a
  string (\<open>Inl\<close> carries the message of the error it rejects with).
\<close>

definition bcrypt_hash ::
  "(string \<Rightarrow> string \<Rightarrow> string) \<Rightarrow> string \<Rightarrow> jsval option \<Rightarrow> nat \<Rightarrow> string + string" where
  "bcrypt_hash dg s v rounds =
     (case v of
        Some (JStr pw) \<Rightarrow> Inr (gensalt rounds s @ dg (gensalt rounds s) pw)
      | None \<Rightarrow> Inl ''data and salt arguments required''
      | Some JNull \<Rightarrow> Inl ''data and salt arguments required''
      | _ \<Rightarrow> Inl (''data must be a string or Buffer and salt must either be ''
                 @ ''a salt string or a number of rounds''))"

text \<open>\<open>bcrypt.compare(data, hash)\<close> hashes the data again under the setting that the
  stored hash starts with, and compares.\<close>

definition bcrypt_compare :: "(string \<Rightarrow> string \<Rightarrow> string) \<Rightarrow> string \<Rightarrow> string \<Rightarrow> bool" where
  "bcrypt_compare dg pw stored = (crypt dg pw stored = Some stored)"

section \<open>The workflows\<close>

text \<open>\<open>signupUser\<close> returns \<open>{error: string}\<close>, \<open>{error}\<close> with the error object of the
  store, or \<open>{message}\<close>.\<close>

datatype signup_result = ErrorMsg string | ErrorObj pg_error | Message string

definition email_lookup :: "env \<Rightarrow> store \<Rightarrow> jsval option \<Rightarrow> jsobj response" where
  "email_lookup ev st email =
     maybeSingle (select_where (lookup_fault ev) st (Some ''id'') (eq_filter ''email'' email))"

definition new_record :: "env \<Rightarrow> jsobj \<Rightarrow> string \<Rightarrow> jsobj" where
  "new_record ev user hashedPassword =
     (let now = clock ev;
          password_expire = setMonth now (int (getMonth now) + 3)
      in user(''password'' \<mapsto> JStr hashedPassword,
              ''approved'' \<mapsto> JBool False,
              ''password_fresh'' \<mapsto> JStr (toISOString now),
              ''password_expire'' \<mapsto> JStr (toISOString password_expire)))"

definition signupUser :: "env \<Rightarrow> store \<Rightarrow> jsobj \<Rightarrow> signup_result \<times> store" where
  "signupUser ev st user =
     (let existing = data (email_lookup ev st (user ''email'')) in
      if existing \<noteq> None then (ErrorMsg ''Email already registered'', st)
      else case bcrypt_hash (digest ev) (salt ev) (user ''password'') SALT_ROUNDS of
        Inl msg \<Rightarrow> (ErrorMsg msg, st)
      | Inr hashedPassword \<Rightarrow>
          (case insert_row (write_fault ev) st (new_record ev user hashedPassword) of
             (Some e, st') \<Rightarrow> (ErrorObj e, st')
           | (None, st') \<Rightarrow> (Message ''Signup successful, awaiting approval'', st')))"

text \<open>\<open>loginUserByUsername\<close> returns \<open>{error: string}\<close> or \<open>{user}\<close>.\<close>

datatype login_result = LoginError string | LoginUser jsobj

definition username_lookup :: "env \<Rightarrow> store \<Rightarrow> string \<Rightarrow> jsobj response" where
  "username_lookup ev st username =
     single (select_where (lookup_fault ev) st None (ilike_filter ''username'' username))"

text \<open>\<open>user.password || ''\<close>: the stored credential, or \<open>None\<close> for a truthy value that is
  not a string (on which \<open>startsWith\<close> throws a \<open>TypeError\<close>).\<close>

definition stored_credential :: "jsobj \<Rightarrow> string option" where
  "stored_credential user =
     (case user ''password'' of
        Some (JStr s) \<Rightarrow> Some s
      | v \<Rightarrow> if truthy v then None else Some [])"

definition isHashed :: "string \<Rightarrow> bool" where
  "isHashed stored = startsWith stored ''$2''"

definition verify :: "(string \<Rightarrow> string \<Rightarrow> string) \<Rightarrow> string \<Rightarrow> string \<Rightarrow> bool" where
  "verify dg password stored =
     (if isHashed stored then bcrypt_compare dg password stored else stored = password)"

definition migrate :: "env \<Rightarrow> store \<Rightarrow> jsobj \<Rightarrow> string \<Rightarrow> store" where
  "migrate ev st user password =
     (case bcrypt_hash (digest ev) (salt ev) (Some (JStr password)) SALT_ROUNDS of
        Inl msg \<Rightarrow> st
      | Inr newHash \<Rightarrow>
          snd (update_where (write_fault ev) st [''password'' \<mapsto> JStr newHash]
                 (eq_filter ''id'' (user ''id''))))"

definition loginUserByUsername :: "env \<Rightarrow> store \<Rightarrow> string \<Rightarrow> string \<Rightarrow> login_result \<times> store" where
  "loginUserByUsername ev st username password =
     (let resp = username_lookup ev st username in
      if error resp \<noteq> None then (LoginError ''No account found'', st)
      else case data resp of
        None \<Rightarrow> (LoginError ''No account found'', st)
      | Some user \<Rightarrow>
          if \<not> truthy (user ''approved'') then (LoginError ''Account awaiting approval'', st)
          else
            (case stored_credential user of
               None \<Rightarrow> (LoginError ''stored.startsWith is not a function'', st)
             | Some stored \<Rightarrow>
                 if \<not> verify (digest ev) password stored
                 then (LoginError ''Incorrect password'', st)
                 else (LoginUser (user(''password'' := None)),
                       if \<not> isHashed stored then migrate ev st user password else st)))"

text \<open>\<open>getRole\<close> and \<open>isActive\<close> return \<open>{error: string}\<close> or the column; reading a
  property of \<open>null\<close> would throw.\<close>

datatype column_result = ColumnError string | Column "jsval option"

definition column_lookup :: "env \<Rightarrow> store \<Rightarrow> string \<Rightarrow> string \<Rightarrow> jsobj response" where
  "column_lookup ev st col email =
     single (select_where (lookup_fault ev) st (Some col)
       (eq_filter ''email'' (Some (JStr email))))"

definition error_message :: "pg_error option \<Rightarrow> string \<Rightarrow> string" where
  "error_message e fallback =
     (case e of None \<Rightarrow> fallback
      | Some x \<Rightarrow> if message x \<noteq> [] then message x else fallback)"

definition getRole :: "env \<Rightarrow> store \<Rightarrow> string \<Rightarrow> column_result outcome" where
  "getRole ev st email =
     (let resp = column_lookup ev st ''role'' email in
      if error resp \<noteq> None \<or> data resp = None
      then Returned (ColumnError (error_message (error resp) ''Role not found''))
      else case data resp of
        None \<Rightarrow> Threw ''TypeError''
      | Some d \<Rightarrow> Returned (Column (d ''role'')))"

definition isActive :: "env \<Rightarrow> store \<Rightarrow> string \<Rightarrow> column_result outcome" where
  "isActive ev st email =
     (let resp = column_lookup ev st ''active'' email in
      if error resp \<noteq> None \<or> data resp = None
      then Returned (ColumnError (error_message (error resp) ''User not found''))
      else case data resp of
        None \<Rightarrow> Threw ''TypeError''
      | Some d \<Rightarrow> Returned (Column (d ''active'')))"

section \<open>Concrete inputs\<close>

text \<open>A digest function, an environment and rows on which the workflows are run.\<close>

definition toy_digest :: "string \<Rightarrow> string \<Rightarrow> string" where
  "toy_digest setting pw = take 31 (rev pw @ ''...............................'')"

definition toy_env :: env where
  "toy_env = \<lparr>digest = toy_digest, salt = ''abcdefghijklmnopqrstuv'',
              clock = \<lparr>year = 2025, month = 10, day = 30, msec = 45296789\<rparr>,
              lookup_fault = None, write_fault = None\<rparr>"

definition alice :: jsobj where
  "alice = [''id'' \<mapsto> JNum 7, ''email'' \<mapsto> JStr ''alice@example.org'',
            ''username'' \<mapsto> JStr ''Alice'', ''password'' \<mapsto> JStr ''pw'',
            ''approved'' \<mapsto> JBool False, ''role'' \<mapsto> JStr ''admin'']"

definition bob :: jsobj where
  "bob = [''id'' \<mapsto> JNum 8, ''email'' \<mapsto> JStr ''bob@example.org'',
          ''username'' \<mapsto> JStr ''bob'', ''password'' \<mapsto> JStr ''hunter2'',
          ''approved'' \<mapsto> JBool True, ''active'' \<mapsto> JBool True]"

definition named :: "string \<Rightarrow> jsobj" where
  "named s = [''username'' \<mapsto> JStr s]"

definition carol :: jsobj where
  "carol = [''email'' \<mapsto> JStr ''carol@example.org'', ''username'' \<mapsto> JStr ''carol'',
            ''password'' \<mapsto> JStr ''secret'', ''approved'' \<mapsto> JBool True,
            ''password_fresh'' \<mapsto> JStr ''never'']"

definition twin :: jsobj where
  "twin = [''id'' \<mapsto> JNum 1, ''email'' \<mapsto> JStr ''carol@example.org'',
           ''username'' \<mapsto> JStr ''carol'']"

definition dave :: jsobj where
  "dave = [''id'' \<mapsto> JNum 9, ''username'' \<mapsto> JStr ''dave'',
           ''password'' \<mapsto> JStr ''$2b$12$abcdefghijklmnopqrstuv2retnuh........................'',
           ''approved'' \<mapsto> JBool True]"

definition eve :: jsobj where
  "eve = [''id'' \<mapsto> JNum 10, ''username'' \<mapsto> JStr ''eve'',
          ''password'' \<mapsto> JStr ''$2plain'', ''approved'' \<mapsto> JBool True]"

definition mute :: pg_error where
  "mute = \<lparr>message = [], code = ''500''\<rparr>"

definition down :: pg_error where
  "down = \<lparr>message = ''connection refused'', code = ''08006''\<rparr>"

section \<open>Evaluation and the store's answers\<close>

lemmas run = toLowerCase_def lower_char_def char_of_def bit_0 dec.simps digit_def stars_def

lemma toy_fields:
  "digest toy_env = toy_digest"
  "salt toy_env = ''abcdefghijklmnopqrstuv''"
  "clock toy_env = \<lparr>year = 2025, month = 10, day = 30, msec = 45296789\<rparr>"
  "lookup_fault toy_env = None"
  "write_fault toy_env = None"
  by (simp_all add: toy_env_def)

lemma filter_single: "filter P xs = [z] \<Longrightarrow> z \<in> set xs \<and> P z"
proof -
  assume "filter P xs = [z]"
  then have "z \<in> set (filter P xs)" by simp
  then show ?thesis by simp
qed

lemma username_lookup_cases:
  "(\<exists>e. username_lookup ev st username = failed e) \<or>
   (\<exists>r. username_lookup ev st username = ok r \<and> r \<in> set (rows st) \<and>
      filter (ilike_filter ''username'' username) (rows st) = [r] \<and> lookup_fault ev = None)"
  by (auto simp: username_lookup_def single_def select_where_def ok_def failed_def project_def
      split: option.splits list.splits dest: filter_single)

section \<open>Login\<close>

text \<open>
  C1. When login succeeds, the user object it returns has no \<open>password\<close> property, and
  every other property is the one of the row that the lookup found in the store.
\<close>

theorem login_user_has_no_password:
  "loginUserByUsername ev st username password = (LoginUser u, st') \<Longrightarrow>
   u ''password'' = None \<and>
   (\<exists>user. username_lookup ev st username = ok user \<and> user \<in> set (rows st) \<and>
      (\<forall>k. k \<noteq> ''password'' \<longrightarrow> u k = user k))"
  using username_lookup_cases [of ev st username]
  by (auto simp: loginUserByUsername_def ok_def failed_def Let_def
      split: option.splits if_splits)

theorem login_user_has_no_password_witness:
  "fst (loginUserByUsername toy_env \<lparr>rows = [alice, bob]\<rparr> ''BOB'' ''hunter2'')
     = LoginUser (bob(''password'' := None)) \<and>
   (bob(''password'' := None)) ''password'' = None \<and>
   (\<exists>user. username_lookup toy_env \<lparr>rows = [alice, bob]\<rparr> ''BOB'' = ok user \<and>
      user \<in> set [alice, bob] \<and>
      (\<forall>k. k \<noteq> ''password'' \<longrightarrow> (bob(''password'' := None)) k = user k))"
proof -
  let ?st = "\<lparr>rows = [alice, bob]\<rparr>"
  have found: "username_lookup toy_env ?st ''BOB'' = ok bob"
    by (simp add: username_lookup_def single_def select_where_def ok_def project_def
        ilike_filter_def alice_def bob_def toy_fields run)
  have legacy: "stored_credential bob = Some ''hunter2''" "bob ''approved'' = Some (JBool True)"
    by (simp_all add: stored_credential_def bob_def)
  have res: "fst (loginUserByUsername toy_env ?st ''BOB'' ''hunter2'')
      = LoginUser (bob(''password'' := None))"
    by (simp add: loginUserByUsername_def found legacy ok_def verify_def isHashed_def
        startsWith_def toy_fields)
  then have "loginUserByUsername toy_env ?st ''BOB'' ''hunter2''
      = (LoginUser (bob(''password'' := None)),
         snd (loginUserByUsername toy_env ?st ''BOB'' ''hunter2''))"
    by (metis prod.collapse)
  from login_user_has_no_password [OF this] res show ?thesis by simp
qed

text \<open>
  C2. When the lookup finds an account whose \<open>approved\<close> is \<open>false\<close>, login answers
  \<open>Account awaiting approval\<close> whatever the password is, and leaves the store as it was.
\<close>

theorem login_unapproved_pending:
  "username_lookup ev st username = ok user \<Longrightarrow> user ''approved'' = Some (JBool False) \<Longrightarrow>
   loginUserByUsername ev st username password = (LoginError ''Account awaiting approval'', st)"
  by (simp add: loginUserByUsername_def ok_def)

theorem login_unapproved_pending_witness:
  "username_lookup toy_env \<lparr>rows = [alice, bob]\<rparr> ''alice'' = ok alice \<and>
   alice ''approved'' = Some (JBool False) \<and>
   verify toy_digest ''pw'' ''pw'' \<and> \<not> verify toy_digest ''wrong'' ''pw'' \<and>
   loginUserByUsername toy_env \<lparr>rows = [alice, bob]\<rparr> ''alice'' ''pw''
     = (LoginError ''Account awaiting approval'', \<lparr>rows = [alice, bob]\<rparr>) \<and>
   loginUserByUsername toy_env \<lparr>rows = [alice, bob]\<rparr> ''alice'' ''wrong''
     = (LoginError ''Account awaiting approval'', \<lparr>rows = [alice, bob]\<rparr>)"
proof -
  let ?st = "\<lparr>rows = [alice, bob]\<rparr>"
  have found: "username_lookup toy_env ?st ''alice'' = ok alice"
    by (simp add: username_lookup_def single_def select_where_def ok_def project_def
        ilike_filter_def alice_def bob_def toy_fields run)
  have pending: "alice ''approved'' = Some (JBool False)"
    by (simp add: alice_def)
  have v: "verify toy_digest ''pw'' ''pw''" "\<not> verify toy_digest ''wrong'' ''pw''"
    by (simp_all add: verify_def isHashed_def startsWith_def)
  show ?thesis
    using found pending v login_unapproved_pending [OF found pending, of "''pw''"]
      login_unapproved_pending [OF found pending, of "''wrong''"]
    by simp
qed

text \<open>
  C10. Whenever the lookup of the username comes back with an error, of whatever kind (a
  request that failed, or \<open>single\<close> finding no row or several rows), login answers
  \<open>No account found\<close>, the answer it gives for a missing account, and leaves the store
  as it was.
\<close>

theorem login_lookup_error_not_found:
  "(error (username_lookup ev st username) \<noteq> None \<longrightarrow>
      loginUserByUsername ev st username password = (LoginError ''No account found'', st)) \<and>
   (lookup_fault ev = Some e \<longrightarrow>
      error (username_lookup ev st username) = Some e \<and>
      loginUserByUsername ev st username password = (LoginError ''No account found'', st)) \<and>
   (lookup_fault ev = None \<and>
    length (filter (ilike_filter ''username'' username) (rows st)) \<noteq> 1 \<longrightarrow>
      error (username_lookup ev st username) = Some pgrst116 \<and>
      loginUserByUsername ev st username password = (LoginError ''No account found'', st))"
  by (auto simp: loginUserByUsername_def username_lookup_def single_def select_where_def
      ok_def failed_def split: option.splits list.splits)

theorem login_lookup_error_not_found_witness:
  "lookup_fault (toy_env\<lparr>lookup_fault := Some down\<rparr>) = Some down \<and>
   error (username_lookup (toy_env\<lparr>lookup_fault := Some down\<rparr>) \<lparr>rows = [bob]\<rparr> ''bob'')
     = Some down \<and>
   loginUserByUsername (toy_env\<lparr>lookup_fault := Some down\<rparr>) \<lparr>rows = [bob]\<rparr> ''bob'' ''hunter2''
     = (LoginError ''No account found'', \<lparr>rows = [bob]\<rparr>) \<and>
   lookup_fault toy_env = None \<and>
   length (filter (ilike_filter ''username'' ''carol'') (rows \<lparr>rows = [bob]\<rparr>)) \<noteq> 1 \<and>
   loginUserByUsername toy_env \<lparr>rows = [bob]\<rparr> ''carol'' ''hunter2''
     = (LoginError ''No account found'', \<lparr>rows = [bob]\<rparr>)"
proof -
  have broken: "lookup_fault (toy_env\<lparr>lookup_fault := Some down\<rparr>) = Some down"
    and working: "lookup_fault toy_env = None"
    by (simp_all add: toy_env_def)
  have none: "length (filter (ilike_filter ''username'' ''carol'') (rows \<lparr>rows = [bob]\<rparr>)) \<noteq> 1"
    by (simp add: ilike_filter_def bob_def run)
  show ?thesis
    using broken working none
      login_lookup_error_not_found
        [of "toy_env\<lparr>lookup_fault := Some down\<rparr>" "\<lparr>rows = [bob]\<rparr>" "''bob''" "''hunter2''" down]
      login_lookup_error_not_found
        [of toy_env "\<lparr>rows = [bob]\<rparr>" "''carol''" "''hunter2''" down]
    by simp
qed

section \<open>Username allocation: the probing loop and the result\<close>

lemma lower_char_idem: "lower_char (lower_char c) = lower_char c"
  by (simp add: lower_char_def Let_def)

lemma toLowerCase_idem: "toLowerCase (toLowerCase s) = toLowerCase s"
  by (simp add: toLowerCase_def lower_char_idem)

lemma lower_digit: "d < 10 \<Longrightarrow> lower_char (digit d) = digit d"
  by (simp add: lower_char_def digit_def Let_def)

lemma toLowerCase_dec: "toLowerCase (dec n) = dec n"
proof (induction n rule: dec.induct)
  case (1 n)
  show ?case
  proof (cases "n < 10")
    case True
    then show ?thesis by (simp add: dec.simps [of n] toLowerCase_def lower_digit)
  next
    case False
    with "1.IH" show ?thesis
      by (simp add: dec.simps [of n] toLowerCase_def lower_digit)
  qed
qed

lemma toLowerCase_candidate: "toLowerCase (candidate desired n) = candidate desired n"
proof -
  have "toLowerCase (candidate desired n)
      = toLowerCase (toLowerCase desired) @ toLowerCase ''-'' @ toLowerCase (dec n)"
    by (simp add: candidate_def toLowerCase_def)
  also have "toLowerCase ''-'' = ''-''"
    by (simp add: toLowerCase_def lower_char_def)
  finally show ?thesis
    by (simp add: toLowerCase_idem toLowerCase_dec candidate_def)
qed

lemma probe_free: "candidate desired (probe existing desired n) \<notin> set existing"
  by (induction existing desired n rule: probe.induct) (simp add: probe.simps)

lemma probe_ge: "n \<le> probe existing desired n"
proof (induction existing desired n rule: probe.induct)
  case (1 existing desired n)
  show ?case
  proof (cases "candidate desired n \<in> set existing")
    case True
    with "1.IH" have "Suc n \<le> probe existing desired (Suc n)" by simp
    with True show ?thesis by (simp add: probe.simps [of existing desired n])
  next
    case False
    then show ?thesis by (simp add: probe.simps [of existing desired n])
  qed
qed

lemma probe_least:
  "n \<le> m \<Longrightarrow> m < probe existing desired n \<Longrightarrow> candidate desired m \<in> set existing"
proof (induction existing desired n rule: probe.induct)
  case (1 existing desired n)
  show ?case
  proof (cases "candidate desired n \<in> set existing")
    case True
    show ?thesis
    proof (cases "m = n")
      case True
      with \<open>candidate desired n \<in> set existing\<close> show ?thesis by simp
    next
      case False
      with "1.prems" have "Suc n \<le> m" by simp
      moreover from "1.prems" True have "m < probe existing desired (Suc n)"
        by (simp add: probe.simps [of existing desired n])
      ultimately show ?thesis using "1.IH" True by simp
    qed
  next
    case False
    with "1.prems" show ?thesis by (simp add: probe.simps [of existing desired n])
  qed
qed

lemma those_map_Some:
  "\<forall>x \<in> set xs. f x \<noteq> None \<Longrightarrow>
   \<exists>ys. those (map f xs) = Some ys \<and> set ys = {k. \<exists>x \<in> set xs. f x = Some k}"
proof (induction xs)
  case Nil
  then show ?case by simp
next
  case (Cons x xs)
  then obtain ys where ys: "those (map f xs) = Some ys"
    "set ys = {k. \<exists>x \<in> set xs. f x = Some k}" by auto
  from Cons.prems obtain k where k: "f x = Some k" by auto
  have "those (map f (x # xs)) = Some (k # ys)" by (simp add: k ys)
  moreover have "set (k # ys) = {k. \<exists>x \<in> set (x # xs). f x = Some k}"
    using k ys(2) by auto
  ultimately show ?case by blast
qed

lemma ilike_filter_text: "ilike_filter col pat r \<Longrightarrow> \<exists>s. r col = Some (JStr s)"
  by (cases "r col") (auto simp: ilike_filter_def split: jsval.splits)

lemma prefix_query_rows:
  assumes "prefix_query ev st desired = ok rs" and "r \<in> set rs"
  shows "\<exists>s. r ''username'' = Some (JStr s)"
proof -
  from assms obtain x where x: "ilike_filter ''username'' (desired @ ''%'') x"
    and r: "r = x |` {''username''}"
    by (auto simp: prefix_query_def select_where_def ok_def failed_def project_def
        split: option.splits)
  from ilike_filter_text [OF x] r show ?thesis by auto
qed

lemma prefix_query_keys:
  assumes "prefix_query ev st desired = ok rs"
  shows "\<exists>ys. those (map username_key rs) = Some ys \<and> set ys = existing_names rs"
  unfolding existing_names_def
proof (rule those_map_Some, rule ballI)
  fix r assume "r \<in> set rs"
  with assms obtain s where "r ''username'' = Some (JStr s)"
    using prefix_query_rows by blast
  then show "username_key r \<noteq> None" by (simp add: username_key_def)
qed

lemma name_not_in_snapshot:
  assumes "toLowerCase name \<notin> existing_names rs" and "r \<in> set rs"
  shows "r ''username'' \<noteq> Some (JStr name)"
proof
  assume "r ''username'' = Some (JStr name)"
  then have "username_key r = Some (toLowerCase name)" by (simp add: username_key_def)
  with assms(2) have "toLowerCase name \<in> existing_names rs"
    by (auto simp: existing_names_def)
  with assms(1) show False by simp
qed

lemma ensureUniqueUsername_unchanged:
  "error (prefix_query ev st desired) \<noteq> None \<or> data (prefix_query ev st desired) = None \<or>
   data (prefix_query ev st desired) = Some [] \<Longrightarrow>
   ensureUniqueUsername ev st desired = Returned desired"
  by (auto simp: ensureUniqueUsername_def Let_def split: option.splits list.splits)

lemma ensureUniqueUsername_ok:
  "prefix_query ev st desired = ok rs \<Longrightarrow>
   ensureUniqueUsername ev st desired =
     (case those (map username_key rs) of
        None \<Rightarrow> Threw ''TypeError''
      | Some existing \<Rightarrow>
          if toLowerCase desired \<notin> set existing then Returned desired
          else Returned (candidate desired (probe existing desired 2)))"
  by (cases rs) (simp_all add: ensureUniqueUsername_def ok_def)

text \<open>
  C6 (amended). If the prefix query fails or returns no rows, or the lowercased desired
  name is not among the lowercased names of the snapshot, the desired name is returned
  unchanged. Otherwise the result is the lowercased desired name followed by \<open>-n\<close>, for
  the least \<open>n\<close> from 2 on for which that name is not in the set. In every case the
  lowercased result is not in the set, and no row of the snapshot carries the result as
  its username. The probing loop is a total function: it stops on every snapshot.
\<close>

theorem ensureUniqueUsername_resolves:
  "(error (prefix_query ev st desired) \<noteq> None \<or> data (prefix_query ev st desired) = None \<or>
    data (prefix_query ev st desired) = Some [] \<longrightarrow>
      ensureUniqueUsername ev st desired = Returned desired) \<and>
   (prefix_query ev st desired = ok rs \<longrightarrow>
      (toLowerCase desired \<notin> existing_names rs \<longrightarrow>
         ensureUniqueUsername ev st desired = Returned desired) \<and>
      (toLowerCase desired \<in> existing_names rs \<longrightarrow>
         (\<exists>n\<ge>2. ensureUniqueUsername ev st desired = Returned (candidate desired n) \<and>
            candidate desired n \<notin> existing_names rs \<and>
            (\<forall>m. 2 \<le> m \<and> m < n \<longrightarrow> candidate desired m \<in> existing_names rs))) \<and>
      (\<exists>name. ensureUniqueUsername ev st desired = Returned name \<and>
         toLowerCase name \<notin> existing_names rs \<and>
         (\<forall>r \<in> set rs. r ''username'' \<noteq> Some (JStr name))))"
proof (intro conjI impI)
  assume "error (prefix_query ev st desired) \<noteq> None \<or> data (prefix_query ev st desired) = None \<or>
    data (prefix_query ev st desired) = Some []"
  then show "ensureUniqueUsername ev st desired = Returned desired"
    by (rule ensureUniqueUsername_unchanged)
next
  assume q: "prefix_query ev st desired = ok rs"
  from prefix_query_keys [OF q] obtain ys where ys: "those (map username_key rs) = Some ys"
    and set_ys: "set ys = existing_names rs" by blast
  have result: "ensureUniqueUsername ev st desired =
      (if toLowerCase desired \<notin> existing_names rs then Returned desired
       else Returned (candidate desired (probe ys desired 2)))"
    by (simp add: ensureUniqueUsername_ok [OF q] ys set_ys)
  let ?n = "probe ys desired 2"
  have free: "candidate desired ?n \<notin> existing_names rs"
    using probe_free [of desired ys 2] by (simp add: set_ys)
  have ge: "2 \<le> ?n" by (rule probe_ge)
  have least: "\<forall>m. 2 \<le> m \<and> m < ?n \<longrightarrow> candidate desired m \<in> existing_names rs"
    using probe_least [of 2 _ ys desired] by (simp add: set_ys)
  {
    assume "toLowerCase desired \<notin> existing_names rs"
    then show "ensureUniqueUsername ev st desired = Returned desired" by (simp add: result)
  }
  {
    assume "toLowerCase desired \<in> existing_names rs"
    then have "ensureUniqueUsername ev st desired = Returned (candidate desired ?n)"
      by (simp add: result)
    with ge free least
    show "\<exists>n\<ge>2. ensureUniqueUsername ev st desired = Returned (candidate desired n) \<and>
        candidate desired n \<notin> existing_names rs \<and>
        (\<forall>m. 2 \<le> m \<and> m < n \<longrightarrow> candidate desired m \<in> existing_names rs)"
      by blast
  }
  show "\<exists>name. ensureUniqueUsername ev st desired = Returned name \<and>
      toLowerCase name \<notin> existing_names rs \<and>
      (\<forall>r \<in> set rs. r ''username'' \<noteq> Some (JStr name))"
  proof (cases "toLowerCase desired \<in> existing_names rs")
    case True
    then have "ensureUniqueUsername ev st desired = Returned (candidate desired ?n)"
      by (simp add: result)
    moreover have "toLowerCase (candidate desired ?n) \<notin> existing_names rs"
      using free by (simp add: toLowerCase_candidate)
    ultimately show ?thesis using name_not_in_snapshot by blast
  next
    case False
    then have "ensureUniqueUsername ev st desired = Returned desired" by (simp add: result)
    with False show ?thesis using name_not_in_snapshot by blast
  qed
qed

theorem ensureUniqueUsername_resolves_witness:
  "prefix_query toy_env \<lparr>rows = [named ''abc01'', named ''ABC01-2'', named ''abc011'']\<rparr>
       ''abc01''
     = ok (map (\<lambda>r. r |` {''username''})
         [named ''abc01'', named ''ABC01-2'', named ''abc011'']) \<and>
   toLowerCase ''abc01''
     \<in> existing_names (map (\<lambda>r. r |` {''username''})
         [named ''abc01'', named ''ABC01-2'', named ''abc011'']) \<and>
   ensureUniqueUsername toy_env
       \<lparr>rows = [named ''abc01'', named ''ABC01-2'', named ''abc011'']\<rparr> ''abc01''
     = Returned ''abc01-3'' \<and>
   toLowerCase ''abc01-3''
     \<notin> existing_names (map (\<lambda>r. r |` {''username''})
         [named ''abc01'', named ''ABC01-2'', named ''abc011''])"
proof -
  let ?st = "\<lparr>rows = [named ''abc01'', named ''ABC01-2'', named ''abc011'']\<rparr>"
  let ?rs = "map (\<lambda>r. r |` {''username''})
    [named ''abc01'', named ''ABC01-2'', named ''abc011'']"
  have q: "prefix_query toy_env ?st ''abc01'' = ok ?rs"
    by (simp add: prefix_query_def select_where_def project_def ilike_filter_def named_def
        toy_fields run)
  have taken: "toLowerCase ''abc01'' \<in> existing_names ?rs"
    by (simp add: existing_names_def username_key_def named_def run)
  have res: "ensureUniqueUsername toy_env ?st ''abc01'' = Returned ''abc01-3''"
    by (subst ensureUniqueUsername_ok [OF q])
      (simp add: username_key_def named_def candidate_def probe.simps run)
  from ensureUniqueUsername_resolves [of toy_env ?st "''abc01''" ?rs] q taken res
  show ?thesis by auto
qed

text \<open>
  C6 as stated fails where the desired name has an upper-case letter: with \<open>abc\<close> taken,
  the first name of the sequence \<open>Abc-2\<close>, \<open>Abc-3\<close>, ... whose lowercasing is free is
  \<open>Abc-2\<close>, and the function returns \<open>abc-2\<close>.
\<close>

theorem ensureUniqueUsername_lowercases_counterexample:
  "toLowerCase ''Abc'' \<in> existing_names [named ''abc''] \<and>
   toLowerCase (''Abc'' @ ''-'' @ dec 2) \<notin> existing_names [named ''abc''] \<and>
   ensureUniqueUsername toy_env \<lparr>rows = [named ''abc'']\<rparr> ''Abc''
     \<noteq> Returned (''Abc'' @ ''-'' @ dec 2) \<and>
   ensureUniqueUsername toy_env \<lparr>rows = [named ''abc'']\<rparr> ''Abc'' = Returned ''abc-2''"
proof -
  have q: "prefix_query toy_env \<lparr>rows = [named ''abc'']\<rparr> ''Abc''
      = ok [named ''abc'' |` {''username''}]"
    by (simp add: prefix_query_def select_where_def project_def ilike_filter_def named_def
        toy_fields run)
  have res: "ensureUniqueUsername toy_env \<lparr>rows = [named ''abc'']\<rparr> ''Abc''
      = Returned ''abc-2''"
    by (subst ensureUniqueUsername_ok [OF q])
      (simp add: username_key_def named_def candidate_def probe.simps run)
  have taken: "toLowerCase ''Abc'' \<in> existing_names [named ''abc'']"
    and free: "toLowerCase (''Abc'' @ ''-'' @ dec 2) \<notin> existing_names [named ''abc'']"
    by (simp_all add: existing_names_def username_key_def named_def run)
  have differ: "Returned ''abc-2'' \<noteq> Returned (''Abc'' @ ''-'' @ dec 2)"
    by simp
  from taken free differ show ?thesis
    unfolding res by blast
qed

section \<open>Credentials\<close>

lemma gensalt_rounds: "gensalt SALT_ROUNDS s = ''$2b$12$'' @ s"
  by (simp add: gensalt_def SALT_ROUNDS_def run)

lemma bcrypt_hash_string:
  "bcrypt_hash dg s (Some (JStr pw)) SALT_ROUNDS = Inr (''$2b$12$'' @ s @ dg (''$2b$12$'' @ s) pw)"
  by (simp add: bcrypt_hash_def gensalt_rounds)

lemma bcrypt_hash_marked:
  "bcrypt_hash dg s v rounds = Inr h \<Longrightarrow> isHashed h"
  by (auto simp: bcrypt_hash_def gensalt_def isHashed_def startsWith_def
      split: option.splits jsval.splits)

lemma valid_setting_hash:
  "length s = 22 \<Longrightarrow> valid_setting (''$2b$12$'' @ s @ d)"
  by (simp add: valid_setting_def startsWith_def is_digit_def)

lemma migrate_rows:
  assumes "write_fault ev = None"
  shows "rows (migrate ev st user password) =
     map (\<lambda>r. if eq_filter ''id'' (user ''id'') r
               then r(''password'' \<mapsto> JStr (''$2b$12$'' @ salt ev @ digest ev (''$2b$12$'' @ salt ev) password))
               else r) (rows st)"
  using assms by (simp add: migrate_def bcrypt_hash_string update_where_def)

lemma migrate_failed: "write_fault ev \<noteq> None \<Longrightarrow> migrate ev st user password = st"
  by (auto simp: migrate_def bcrypt_hash_string update_where_def)

lemma bcrypt_compare_hash:
  "length s = 22 \<Longrightarrow>
   bcrypt_compare dg pw (''$2b$12$'' @ s @ dg (''$2b$12$'' @ s) p)
     \<longleftrightarrow> dg (''$2b$12$'' @ s) pw = dg (''$2b$12$'' @ s) p"
  using valid_setting_hash [of s "dg (''$2b$12$'' @ s) p"]
  by (simp add: bcrypt_compare_def crypt_def)

lemma login_found:
  assumes "username_lookup ev st username = ok user"
    and "truthy (user ''approved'')"
    and "stored_credential user = Some stored"
  shows "loginUserByUsername ev st username password =
     (if startsWith stored ''$2''
      then if bcrypt_compare (digest ev) password stored
           then (LoginUser (user(''password'' := None)), st)
           else (LoginError ''Incorrect password'', st)
      else if stored = password
           then (LoginUser (user(''password'' := None)), migrate ev st user password)
           else (LoginError ''Incorrect password'', st))"
  using assms by (simp add: loginUserByUsername_def ok_def verify_def isHashed_def)

lemma ilike_filter_password:
  "ilike_filter ''username'' pat (r(''password'' \<mapsto> v)) = ilike_filter ''username'' pat r"
  by (simp add: ilike_filter_def)

lemma username_lookup_after_rewrite:
  assumes found: "username_lookup ev st username = ok user"
    and own: "eq_filter ''id'' (user ''id'') user"
    and up: "lookup_fault ev' = None"
    and st': "rows st' = map (\<lambda>r. if eq_filter ''id'' (user ''id'') r
                                   then r(''password'' \<mapsto> JStr h) else r) (rows st)"
  shows "username_lookup ev' st' username = ok (user(''password'' \<mapsto> JStr h))"
proof -
  let ?P = "ilike_filter ''username'' username"
  let ?upd = "\<lambda>r. if eq_filter ''id'' (user ''id'') r then r(''password'' \<mapsto> JStr h) else r"
  from found username_lookup_cases [of ev st username]
  have one: "filter ?P (rows st) = [user]"
    by (auto simp: ok_def failed_def)
  have "?P (?upd r) = ?P r" for r
    by (simp add: ilike_filter_password)
  then have "filter ?P (map ?upd (rows st)) = map ?upd (filter ?P (rows st))"
    by (simp add: filter_map o_def)
  with one own have "filter ?P (rows st') = [user(''password'' \<mapsto> JStr h)]"
    by (simp add: st')
  with up show ?thesis
    by (simp add: username_lookup_def single_def select_where_def ok_def project_def)
qed

text \<open>
  C5. For an account that the lookup finds and that is approved, login classifies the
  stored credential as hashed exactly when it starts with \<open>$2\<close>. Without the marker,
  login succeeds when the supplied plaintext equals the stored value and answers
  \<open>Incorrect password\<close> otherwise. With the marker, it succeeds when the comparison of the
  hashing library accepts and answers \<open>Incorrect password\<close> otherwise, also when the
  plaintext equals the stored value. A credential that the hasher produced (with a salt
  of the length the library draws) carries the marker; login against it succeeds for
  the plaintext it was made from, and for another plaintext exactly when the digests
  under its setting agree. After a login on a legacy credential, the rewrite leaves the
  store as it was when its request fails; when it goes through, the rows with the id of
  the account carry the hash of the plaintext, the next lookup finds the account with
  that hash, the next login with the same plaintext succeeds without a further rewrite,
  and one with a plaintext of another digest answers \<open>Incorrect password\<close>.
\<close>

theorem login_verifies_credential:
  assumes found: "username_lookup ev st username = ok user"
    and approved: "truthy (user ''approved'')"
    and stored: "stored_credential user = Some stored"
  shows
   "(\<not> startsWith stored ''$2'' \<and> stored \<noteq> password \<longrightarrow>
       loginUserByUsername ev st username password = (LoginError ''Incorrect password'', st)) \<and>
    (\<not> startsWith stored ''$2'' \<and> stored = password \<longrightarrow>
       fst (loginUserByUsername ev st username password) = LoginUser (user(''password'' := None))) \<and>
    (startsWith stored ''$2'' \<and> \<not> bcrypt_compare (digest ev) password stored \<longrightarrow>
       loginUserByUsername ev st username password = (LoginError ''Incorrect password'', st)) \<and>
    (startsWith stored ''$2'' \<and> bcrypt_compare (digest ev) password stored \<longrightarrow>
       loginUserByUsername ev st username password
         = (LoginUser (user(''password'' := None)), st)) \<and>
    (length s = 22 \<and> bcrypt_hash (digest ev) s (Some (JStr p)) SALT_ROUNDS = Inr stored \<longrightarrow>
       startsWith stored ''$2'' \<and>
       loginUserByUsername ev st username p = (LoginUser (user(''password'' := None)), st) \<and>
       (digest ev (gensalt SALT_ROUNDS s) password = digest ev (gensalt SALT_ROUNDS s) p \<longrightarrow>
          loginUserByUsername ev st username password
            = (LoginUser (user(''password'' := None)), st)) \<and>
       (digest ev (gensalt SALT_ROUNDS s) password \<noteq> digest ev (gensalt SALT_ROUNDS s) p \<longrightarrow>
          loginUserByUsername ev st username password
            = (LoginError ''Incorrect password'', st))) \<and>
    (\<not> startsWith stored ''$2'' \<and> stored = password \<and> write_fault ev \<noteq> None \<longrightarrow>
       snd (loginUserByUsername ev st username password) = st) \<and>
    (\<not> startsWith stored ''$2'' \<and> stored = password \<and> write_fault ev = None \<and>
     length (salt ev) = 22 \<and> eq_filter ''id'' (user ''id'') user \<and> exact_in_js (user ''id'') \<and>
     digest ev' = digest ev \<and> lookup_fault ev' = None \<and>
     st' = snd (loginUserByUsername ev st username password) \<longrightarrow>
       (\<exists>h. bcrypt_hash (digest ev) (salt ev) (Some (JStr password)) SALT_ROUNDS = Inr h \<and>
          startsWith h ''$2'' \<and>
          rows st' = map (\<lambda>r. if eq_filter ''id'' (user ''id'') r
                               then r(''password'' \<mapsto> JStr h) else r) (rows st) \<and>
          username_lookup ev' st' username = ok (user(''password'' \<mapsto> JStr h)) \<and>
          loginUserByUsername ev' st' username password
            = (LoginUser (user(''password'' := None)), st') \<and>
          (digest ev (gensalt SALT_ROUNDS (salt ev)) pw'
             \<noteq> digest ev (gensalt SALT_ROUNDS (salt ev)) password \<longrightarrow>
           loginUserByUsername ev' st' username pw'
             = (LoginError ''Incorrect password'', st'))))"
proof -
  note login = login_found [OF found approved stored]
  have wrong_legacy: "\<not> startsWith stored ''$2'' \<and> stored \<noteq> password \<longrightarrow>
      loginUserByUsername ev st username password = (LoginError ''Incorrect password'', st)"
    by (auto simp: login)
  have right_legacy: "\<not> startsWith stored ''$2'' \<and> stored = password \<longrightarrow>
      fst (loginUserByUsername ev st username password) = LoginUser (user(''password'' := None))"
    by (auto simp: login)
  have wrong_hashed: "startsWith stored ''$2'' \<and> \<not> bcrypt_compare (digest ev) password stored \<longrightarrow>
      loginUserByUsername ev st username password = (LoginError ''Incorrect password'', st)"
    by (auto simp: login)
  have right_hashed: "startsWith stored ''$2'' \<and> bcrypt_compare (digest ev) password stored \<longrightarrow>
      loginUserByUsername ev st username password
        = (LoginUser (user(''password'' := None)), st)"
    by (auto simp: login)
  have round_trip: "length s = 22 \<and>
      bcrypt_hash (digest ev) s (Some (JStr p)) SALT_ROUNDS = Inr stored \<longrightarrow>
       startsWith stored ''$2'' \<and>
       loginUserByUsername ev st username p = (LoginUser (user(''password'' := None)), st) \<and>
       (digest ev (gensalt SALT_ROUNDS s) password = digest ev (gensalt SALT_ROUNDS s) p \<longrightarrow>
          loginUserByUsername ev st username password
            = (LoginUser (user(''password'' := None)), st)) \<and>
       (digest ev (gensalt SALT_ROUNDS s) password \<noteq> digest ev (gensalt SALT_ROUNDS s) p \<longrightarrow>
          loginUserByUsername ev st username password
            = (LoginError ''Incorrect password'', st))"
  proof (intro impI, elim conjE)
    assume s: "length s = 22"
      and h: "bcrypt_hash (digest ev) s (Some (JStr p)) SALT_ROUNDS = Inr stored"
    from h have eq: "stored = ''$2b$12$'' @ s @ digest ev (''$2b$12$'' @ s) p"
      by (simp add: bcrypt_hash_string)
    then have marked: "startsWith stored ''$2''"
      by (simp add: startsWith_def)
    have cmp: "bcrypt_compare (digest ev) pw stored
        \<longleftrightarrow> digest ev (''$2b$12$'' @ s) pw = digest ev (''$2b$12$'' @ s) p" for pw
      unfolding eq using s by (rule bcrypt_compare_hash)
    have any: "loginUserByUsername ev st username pw =
        (if digest ev (''$2b$12$'' @ s) pw = digest ev (''$2b$12$'' @ s) p
         then (LoginUser (user(''password'' := None)), st)
         else (LoginError ''Incorrect password'', st))" for pw
      unfolding login_found [OF found approved stored] cmp
      using marked by simp
    from marked any [of p] any [of password]
    show "startsWith stored ''$2'' \<and>
       loginUserByUsername ev st username p = (LoginUser (user(''password'' := None)), st) \<and>
       (digest ev (gensalt SALT_ROUNDS s) password = digest ev (gensalt SALT_ROUNDS s) p \<longrightarrow>
          loginUserByUsername ev st username password
            = (LoginUser (user(''password'' := None)), st)) \<and>
       (digest ev (gensalt SALT_ROUNDS s) password \<noteq> digest ev (gensalt SALT_ROUNDS s) p \<longrightarrow>
          loginUserByUsername ev st username password
            = (LoginError ''Incorrect password'', st))"
      by (simp add: gensalt_rounds)
  qed
  have swallowed: "\<not> startsWith stored ''$2'' \<and> stored = password \<and> write_fault ev \<noteq> None \<longrightarrow>
      snd (loginUserByUsername ev st username password) = st"
    by (auto simp: login migrate_failed)
  have rewritten: "\<not> startsWith stored ''$2'' \<and> stored = password \<and> write_fault ev = None \<and>
     length (salt ev) = 22 \<and> eq_filter ''id'' (user ''id'') user \<and> exact_in_js (user ''id'') \<and>
     digest ev' = digest ev \<and> lookup_fault ev' = None \<and>
     st' = snd (loginUserByUsername ev st username password) \<longrightarrow>
       (\<exists>h. bcrypt_hash (digest ev) (salt ev) (Some (JStr password)) SALT_ROUNDS = Inr h \<and>
          startsWith h ''$2'' \<and>
          rows st' = map (\<lambda>r. if eq_filter ''id'' (user ''id'') r
                               then r(''password'' \<mapsto> JStr h) else r) (rows st) \<and>
          username_lookup ev' st' username = ok (user(''password'' \<mapsto> JStr h)) \<and>
          loginUserByUsername ev' st' username password
            = (LoginUser (user(''password'' := None)), st') \<and>
          (digest ev (gensalt SALT_ROUNDS (salt ev)) pw'
             \<noteq> digest ev (gensalt SALT_ROUNDS (salt ev)) password \<longrightarrow>
           loginUserByUsername ev' st' username pw'
             = (LoginError ''Incorrect password'', st')))"
  proof (intro impI, elim conjE)
    let ?G = "''$2b$12$'' @ salt ev"
    let ?h = "''$2b$12$'' @ salt ev @ digest ev ?G password"
    assume legacy: "\<not> startsWith stored ''$2''" and right: "stored = password"
      and writes: "write_fault ev = None" and salted: "length (salt ev) = 22"
      and own: "eq_filter ''id'' (user ''id'') user"
      and same: "digest ev' = digest ev" and up: "lookup_fault ev' = None"
      and st': "st' = snd (loginUserByUsername ev st username password)"
    from legacy right have "st' = migrate ev st user password"
      by (auto simp: st' login)
    with writes have rows': "rows st' = map (\<lambda>r. if eq_filter ''id'' (user ''id'') r
        then r(''password'' \<mapsto> JStr ?h) else r) (rows st)"
      by (simp add: migrate_rows)
    have hash: "bcrypt_hash (digest ev) (salt ev) (Some (JStr password)) SALT_ROUNDS = Inr ?h"
      by (simp add: bcrypt_hash_string)
    have marked: "startsWith ?h ''$2''"
      by (simp add: startsWith_def)
    have found': "username_lookup ev' st' username = ok (user(''password'' \<mapsto> JStr ?h))"
      using found own up rows' by (rule username_lookup_after_rewrite)
    have approved': "truthy ((user(''password'' \<mapsto> JStr ?h)) ''approved'')"
      using approved by simp
    have stored': "stored_credential (user(''password'' \<mapsto> JStr ?h)) = Some ?h"
      by (simp add: stored_credential_def)
    have cmp: "bcrypt_compare (digest ev') pw ?h
        \<longleftrightarrow> digest ev ?G pw = digest ev ?G password" for pw
      unfolding same
      using salted bcrypt_compare_hash [of "salt ev" "digest ev" pw password]
      by simp
    have again: "loginUserByUsername ev' st' username pw =
        (if digest ev ?G pw = digest ev ?G password
         then (LoginUser (user(''password'' := None)), st')
         else (LoginError ''Incorrect password'', st'))" for pw
      unfolding login_found [OF found' approved' stored'] cmp
      using marked by simp
    from hash marked rows' found' again [of password] again [of pw']
    show "\<exists>h. bcrypt_hash (digest ev) (salt ev) (Some (JStr password)) SALT_ROUNDS = Inr h \<and>
          startsWith h ''$2'' \<and>
          rows st' = map (\<lambda>r. if eq_filter ''id'' (user ''id'') r
                               then r(''password'' \<mapsto> JStr h) else r) (rows st) \<and>
          username_lookup ev' st' username = ok (user(''password'' \<mapsto> JStr h)) \<and>
          loginUserByUsername ev' st' username password
            = (LoginUser (user(''password'' := None)), st') \<and>
          (digest ev (gensalt SALT_ROUNDS (salt ev)) pw'
             \<noteq> digest ev (gensalt SALT_ROUNDS (salt ev)) password \<longrightarrow>
           loginUserByUsername ev' st' username pw'
             = (LoginError ''Incorrect password'', st'))"
      by (intro exI [of _ ?h]) (simp add: gensalt_rounds)
  qed
  show ?thesis
    by (intro conjI wrong_legacy right_legacy wrong_hashed right_hashed round_trip swallowed
        rewritten)
qed

theorem login_verifies_credential_witness:
  "username_lookup toy_env \<lparr>rows = [alice, bob]\<rparr> ''bob'' = ok bob \<and>
   truthy (bob ''approved'') \<and> stored_credential bob = Some ''hunter2'' \<and>
   \<not> startsWith ''hunter2'' ''$2'' \<and>
   loginUserByUsername toy_env \<lparr>rows = [alice, bob]\<rparr> ''bob'' ''hunter3''
     = (LoginError ''Incorrect password'', \<lparr>rows = [alice, bob]\<rparr>) \<and>
   loginUserByUsername toy_env \<lparr>rows = [alice, bob]\<rparr> ''bob'' ''hunter2''
     = (LoginUser (bob(''password'' := None)),
        \<lparr>rows = [alice, bob(''password'' \<mapsto>
           JStr ''$2b$12$abcdefghijklmnopqrstuv2retnuh........................'')]\<rparr>) \<and>
   loginUserByUsername toy_env
       \<lparr>rows = [alice, bob(''password'' \<mapsto>
          JStr ''$2b$12$abcdefghijklmnopqrstuv2retnuh........................'')]\<rparr>
       ''bob'' ''hunter2''
     = (LoginUser (bob(''password'' := None)),
        \<lparr>rows = [alice, bob(''password'' \<mapsto>
           JStr ''$2b$12$abcdefghijklmnopqrstuv2retnuh........................'')]\<rparr>) \<and>
   loginUserByUsername toy_env
       \<lparr>rows = [alice, bob(''password'' \<mapsto>
          JStr ''$2b$12$abcdefghijklmnopqrstuv2retnuh........................'')]\<rparr>
       ''bob'' ''hunter3''
     = (LoginError ''Incorrect password'',
        \<lparr>rows = [alice, bob(''password'' \<mapsto>
           JStr ''$2b$12$abcdefghijklmnopqrstuv2retnuh........................'')]\<rparr>) \<and>
   loginUserByUsername (toy_env\<lparr>write_fault := Some down\<rparr>) \<lparr>rows = [alice, bob]\<rparr>
       ''bob'' ''hunter2''
     = (LoginUser (bob(''password'' := None)), \<lparr>rows = [alice, bob]\<rparr>) \<and>
   loginUserByUsername toy_env \<lparr>rows = [dave]\<rparr> ''dave'' ''hunter2''
     = (LoginUser (dave(''password'' := None)), \<lparr>rows = [dave]\<rparr>) \<and>
   loginUserByUsername toy_env \<lparr>rows = [dave]\<rparr> ''dave'' ''hunter3''
     = (LoginError ''Incorrect password'', \<lparr>rows = [dave]\<rparr>) \<and>
   startsWith ''$2plain'' ''$2'' \<and>
   loginUserByUsername toy_env \<lparr>rows = [eve]\<rparr> ''eve'' ''$2plain''
     = (LoginError ''Incorrect password'', \<lparr>rows = [eve]\<rparr>)"
proof -
  let ?st = "\<lparr>rows = [alice, bob]\<rparr>"
  let ?H = "''$2b$12$abcdefghijklmnopqrstuv2retnuh........................''"
  let ?st' = "\<lparr>rows = [alice, bob(''password'' \<mapsto> JStr ?H)]\<rparr>"
  let ?off = "toy_env\<lparr>write_fault := Some down\<rparr>"
  txt \<open>A legacy credential.\<close>
  have found: "username_lookup toy_env ?st ''bob'' = ok bob"
    by (simp add: username_lookup_def single_def select_where_def ok_def project_def
        ilike_filter_def alice_def bob_def toy_fields run)
  have approved: "truthy (bob ''approved'')"
    and stored: "stored_credential bob = Some ''hunter2''"
    by (simp_all add: stored_credential_def bob_def)
  have plain: "\<not> startsWith ''hunter2'' ''$2''"
    by (simp add: startsWith_def)
  have ids: "eq_filter ''id'' (bob ''id'') bob" "\<not> eq_filter ''id'' (bob ''id'') alice"
    "exact_in_js (bob ''id'')"
    by (simp_all add: eq_filter_def exact_in_js_def alice_def bob_def dec_int_def run)
  have hash: "bcrypt_hash (digest toy_env) (salt toy_env) (Some (JStr ''hunter2'')) SALT_ROUNDS
      = Inr ?H"
    by (simp add: bcrypt_hash_string toy_fields toy_digest_def)
  have differ: "digest toy_env (gensalt SALT_ROUNDS (salt toy_env)) ''hunter3''
      \<noteq> digest toy_env (gensalt SALT_ROUNDS (salt toy_env)) ''hunter2''"
    by (simp add: toy_fields toy_digest_def)
  note legacy = login_verifies_credential [OF found approved stored]
  from legacy [where password = "''hunter3''"] plain
  have wrong: "loginUserByUsername toy_env ?st ''bob'' ''hunter3''
      = (LoginError ''Incorrect password'', ?st)"
    by simp
  from legacy [where password = "''hunter2''" and ev' = toy_env and pw' = "''hunter3''"
      and st' = "snd (loginUserByUsername toy_env ?st ''bob'' ''hunter2'')"]
    plain ids differ
  obtain h where h: "bcrypt_hash (digest toy_env) (salt toy_env) (Some (JStr ''hunter2''))
        SALT_ROUNDS = Inr h"
    and first: "fst (loginUserByUsername toy_env ?st ''bob'' ''hunter2'')
        = LoginUser (bob(''password'' := None))"
    and rows': "rows (snd (loginUserByUsername toy_env ?st ''bob'' ''hunter2''))
        = map (\<lambda>r. if eq_filter ''id'' (bob ''id'') r
                      then r(''password'' \<mapsto> JStr h) else r) (rows ?st)"
    and again: "loginUserByUsername toy_env
          (snd (loginUserByUsername toy_env ?st ''bob'' ''hunter2'')) ''bob'' ''hunter2''
        = (LoginUser (bob(''password'' := None)),
           snd (loginUserByUsername toy_env ?st ''bob'' ''hunter2''))"
    and again_wrong: "loginUserByUsername toy_env
          (snd (loginUserByUsername toy_env ?st ''bob'' ''hunter2'')) ''bob'' ''hunter3''
        = (LoginError ''Incorrect password'',
           snd (loginUserByUsername toy_env ?st ''bob'' ''hunter2''))"
    by (auto simp: toy_fields)
  from h hash have "h = ?H" by simp
  with rows' ids have "rows (snd (loginUserByUsername toy_env ?st ''bob'' ''hunter2''))
      = [alice, bob(''password'' \<mapsto> JStr ?H)]"
    by simp
  then have after: "snd (loginUserByUsername toy_env ?st ''bob'' ''hunter2'') = ?st'"
    by (cases "snd (loginUserByUsername toy_env ?st ''bob'' ''hunter2'')") simp
  from first after have right: "loginUserByUsername toy_env ?st ''bob'' ''hunter2''
      = (LoginUser (bob(''password'' := None)), ?st')"
    by (metis prod.collapse)
  from again again_wrong
  have second: "loginUserByUsername toy_env ?st' ''bob'' ''hunter2''
      = (LoginUser (bob(''password'' := None)), ?st')"
    and second_wrong: "loginUserByUsername toy_env ?st' ''bob'' ''hunter3''
      = (LoginError ''Incorrect password'', ?st')"
    unfolding after by simp_all
  txt \<open>A rewrite that fails.\<close>
  have found_off: "username_lookup ?off ?st ''bob'' = ok bob"
    using found by (simp add: username_lookup_def)
  from login_verifies_credential [OF found_off approved stored, where password = "''hunter2''"]
    plain
  have "fst (loginUserByUsername ?off ?st ''bob'' ''hunter2'')
      = LoginUser (bob(''password'' := None))"
    and "snd (loginUserByUsername ?off ?st ''bob'' ''hunter2'') = ?st"
    by simp_all
  then have lost: "loginUserByUsername ?off ?st ''bob'' ''hunter2''
      = (LoginUser (bob(''password'' := None)), ?st)"
    by (metis prod.collapse)
  txt \<open>A hashed credential.\<close>
  have found_dave: "username_lookup toy_env \<lparr>rows = [dave]\<rparr> ''dave'' = ok dave"
    by (simp add: username_lookup_def single_def select_where_def ok_def project_def
        ilike_filter_def dave_def toy_fields run)
  have dave: "truthy (dave ''approved'')" "stored_credential dave = Some ?H"
    by (simp_all add: stored_credential_def dave_def)
  have salted: "length (salt toy_env) = 22"
    by (simp add: toy_fields)
  note hashed = login_verifies_credential [OF found_dave dave,
      where s = "salt toy_env" and p = "''hunter2''"]
  from hashed [where password = "''hunter2''"] salted hash
  have dave_right: "loginUserByUsername toy_env \<lparr>rows = [dave]\<rparr> ''dave'' ''hunter2''
      = (LoginUser (dave(''password'' := None)), \<lparr>rows = [dave]\<rparr>)"
    by simp
  from hashed [where password = "''hunter3''"] salted hash differ
  have dave_wrong: "loginUserByUsername toy_env \<lparr>rows = [dave]\<rparr> ''dave'' ''hunter3''
      = (LoginError ''Incorrect password'', \<lparr>rows = [dave]\<rparr>)"
    by simp
  txt \<open>A plaintext credential that starts with the marker.\<close>
  have found_eve: "username_lookup toy_env \<lparr>rows = [eve]\<rparr> ''eve'' = ok eve"
    by (simp add: username_lookup_def single_def select_where_def ok_def project_def
        ilike_filter_def eve_def toy_fields run)
  have eve: "truthy (eve ''approved'')" "stored_credential eve = Some ''$2plain''"
    by (simp_all add: stored_credential_def eve_def)
  have marker: "startsWith ''$2plain'' ''$2''"
    and invalid: "\<not> bcrypt_compare (digest toy_env) ''$2plain'' ''$2plain''"
    by (simp_all add: startsWith_def bcrypt_compare_def crypt_def valid_setting_def)
  from login_verifies_credential [OF found_eve eve, where password = "''$2plain''"]
    marker invalid
  have eve_wrong: "loginUserByUsername toy_env \<lparr>rows = [eve]\<rparr> ''eve'' ''$2plain''
      = (LoginError ''Incorrect password'', \<lparr>rows = [eve]\<rparr>)"
    by simp
  from found approved stored plain wrong right second second_wrong lost dave_right dave_wrong
    marker eve_wrong
  show ?thesis by blast
qed

section \<open>Signup\<close>

lemma new_record_fields:
  "new_record ev user h ''approved'' = Some (JBool False)"
  "new_record ev user h ''password'' = Some (JStr h)"
  "new_record ev user h ''password_fresh'' = Some (JStr (toISOString (clock ev)))"
  "new_record ev user h ''password_expire''
     = Some (JStr (toISOString (setMonth (clock ev) (int (getMonth (clock ev)) + 3))))"
  "k \<notin> {''password'', ''approved'', ''password_fresh'', ''password_expire''} \<Longrightarrow>
   new_record ev user h k = user k"
  by (simp_all add: new_record_def Let_def)

lemma signupUser_cases:
  "signupUser ev st user = (res, st') \<Longrightarrow>
   st' = st \<or>
   (\<exists>h. bcrypt_hash (digest ev) (salt ev) (user ''password'') SALT_ROUNDS = Inr h \<and>
      res = Message ''Signup successful, awaiting approval'' \<and>
      st' = st\<lparr>rows := rows st @ [new_record ev user h]\<rparr>)"
  by (auto simp: signupUser_def insert_row_def Let_def split: if_splits sum.splits option.splits)

lemma signup_duplicate_rejected:
  "email_lookup ev st (user ''email'') = ok r \<Longrightarrow>
   signupUser ev st user = (ErrorMsg ''Email already registered'', st)"
  by (simp add: signupUser_def ok_def)

lemma signup_single_duplicate_rejected:
  "lookup_fault ev = None \<Longrightarrow>
   filter (eq_filter ''email'' (user ''email'')) (rows st) = [r] \<Longrightarrow>
   signupUser ev st user = (ErrorMsg ''Email already registered'', st)"
  by (rule signup_duplicate_rejected [where r = "r |` {''id''}"])
    (simp add: email_lookup_def maybeSingle_def select_where_def ok_def project_def)

lemma signup_inserts:
  "data (email_lookup ev st (user ''email'')) = None \<Longrightarrow> write_fault ev = None \<Longrightarrow>
   user ''password'' = Some (JStr pw) \<Longrightarrow>
   signupUser ev st user
     = (Message ''Signup successful, awaiting approval'',
        st\<lparr>rows := rows st @ [new_record ev user
          (''$2b$12$'' @ salt ev @ digest ev (''$2b$12$'' @ salt ev) pw)]\<rparr>)"
  by (simp add: signupUser_def bcrypt_hash_string insert_row_def)

lemma signup_happy_path:
  "lookup_fault ev = None \<Longrightarrow> write_fault ev = None \<Longrightarrow>
   filter (eq_filter ''email'' (user ''email'')) (rows st) = [] \<Longrightarrow>
   user ''password'' = Some (JStr pw) \<Longrightarrow>
   signupUser ev st user
     = (Message ''Signup successful, awaiting approval'',
        st\<lparr>rows := rows st @ [new_record ev user
          (''$2b$12$'' @ salt ev @ digest ev (''$2b$12$'' @ salt ev) pw)]\<rparr>)"
  by (rule signup_inserts)
    (simp_all add: email_lookup_def maybeSingle_def select_where_def ok_def no_data_def)

lemma toy_hash:
  "bcrypt_hash (digest toy_env) (salt toy_env) (Some (JStr ''secret'')) SALT_ROUNDS
     = Inr ''$2b$12$abcdefghijklmnopqrstuvterces.........................''"
  by (simp add: bcrypt_hash_string toy_fields toy_digest_def)

text \<open>
  C4. Whenever signup adds a row, that row is the candidate with four properties
  overwritten: \<open>approved\<close> is \<open>false\<close>, \<open>password\<close> is the hash that the library made of
  the candidate's password (it carries the marker), and the two timestamps are those
  computed from the clock. Values that the candidate itself carries for these four
  properties are lost; every other property is the candidate's.
\<close>

theorem signup_record_pending_and_hashed:
  "signupUser ev st user = (res, st') \<Longrightarrow> rows st' \<noteq> rows st \<Longrightarrow>
   \<exists>r h. rows st' = rows st @ [r] \<and>
     bcrypt_hash (digest ev) (salt ev) (user ''password'') SALT_ROUNDS = Inr h \<and> isHashed h \<and>
     r ''approved'' = Some (JBool False) \<and>
     r ''password'' = Some (JStr h) \<and>
     r ''password_fresh'' = Some (JStr (toISOString (clock ev))) \<and>
     r ''password_expire''
       = Some (JStr (toISOString (setMonth (clock ev) (int (getMonth (clock ev)) + 3)))) \<and>
     (\<forall>k. k \<notin> {''password'', ''approved'', ''password_fresh'', ''password_expire''} \<longrightarrow>
        r k = user k)"
proof -
  assume signup: "signupUser ev st user = (res, st')" and changed: "rows st' \<noteq> rows st"
  from signupUser_cases [OF signup] changed obtain h
    where h: "bcrypt_hash (digest ev) (salt ev) (user ''password'') SALT_ROUNDS = Inr h"
      and st': "st' = st\<lparr>rows := rows st @ [new_record ev user h]\<rparr>"
    by auto
  from h have "isHashed h" by (rule bcrypt_hash_marked)
  with h st' new_record_fields [where ev = ev and user = user and h = h] show ?thesis
    by (intro exI [of _ "new_record ev user h"] exI [of _ h]) simp
qed

theorem signup_record_pending_and_hashed_witness:
  "carol ''approved'' = Some (JBool True) \<and> carol ''password'' = Some (JStr ''secret'') \<and>
   rows (snd (signupUser toy_env \<lparr>rows = [alice, bob]\<rparr> carol))
     \<noteq> rows \<lparr>rows = [alice, bob]\<rparr> \<and>
   (\<exists>r h. rows (snd (signupUser toy_env \<lparr>rows = [alice, bob]\<rparr> carol))
        = [alice, bob, r] \<and>
      h = ''$2b$12$abcdefghijklmnopqrstuvterces.........................'' \<and>
      isHashed h \<and> r ''approved'' = Some (JBool False) \<and> r ''password'' = Some (JStr h) \<and>
      r ''password_fresh'' = Some (JStr ''2025-11-30T12:34:56.789Z'') \<and>
      r ''username'' = Some (JStr ''carol''))"
proof -
  let ?st = "\<lparr>rows = [alice, bob]\<rparr>"
  have fresh: "filter (eq_filter ''email'' (carol ''email'')) (rows ?st) = []"
    by (simp add: eq_filter_def alice_def bob_def carol_def)
  have given: "carol ''approved'' = Some (JBool True)" "carol ''password'' = Some (JStr ''secret'')"
    "carol ''username'' = Some (JStr ''carol'')"
    by (simp_all add: carol_def)
  from signup_happy_path [OF toy_fields(4) toy_fields(5) fresh given(2)]
  have changed: "rows (snd (signupUser toy_env ?st carol)) \<noteq> rows ?st"
    by simp
  have now: "toISOString (clock toy_env) = ''2025-11-30T12:34:56.789Z''"
    by (simp add: toy_fields toISOString_def pad_def run)
  from signup_record_pending_and_hashed [OF prod.collapse [symmetric] changed]
  obtain r h where r: "rows (snd (signupUser toy_env ?st carol)) = rows ?st @ [r]"
    and h: "bcrypt_hash (digest toy_env) (salt toy_env) (carol ''password'') SALT_ROUNDS = Inr h"
    and marked: "isHashed h"
    and fields: "r ''approved'' = Some (JBool False)" "r ''password'' = Some (JStr h)"
      "r ''password_fresh'' = Some (JStr (toISOString (clock toy_env)))"
    and rest: "\<forall>k. k \<notin> {''password'', ''approved'', ''password_fresh'', ''password_expire''}
        \<longrightarrow> r k = carol k"
    by blast
  from h toy_hash have hash: "h = ''$2b$12$abcdefghijklmnopqrstuvterces.........................''"
    by (simp add: given)
  from rest have name: "r ''username'' = Some (JStr ''carol'')"
    by (simp add: given)
  from r have listed: "rows (snd (signupUser toy_env ?st carol)) = [alice, bob, r]"
    by simp
  from listed hash marked fields name now
  have "\<exists>r h. rows (snd (signupUser toy_env ?st carol)) = [alice, bob, r] \<and>
      h = ''$2b$12$abcdefghijklmnopqrstuvterces.........................'' \<and>
      isHashed h \<and> r ''approved'' = Some (JBool False) \<and> r ''password'' = Some (JStr h) \<and>
      r ''password_fresh'' = Some (JStr ''2025-11-30T12:34:56.789Z'') \<and>
      r ''username'' = Some (JStr ''carol'')"
    by (intro exI [of _ r] exI [of _ h]) simp
  with given(1,2) changed show ?thesis by blast
qed

text \<open>
  C3 at two inputs that signup can receive. With two rows of the candidate's email in the
  store, the lookup with \<open>maybeSingle\<close> answers with an error and no data; with one such
  row and a lookup request that fails, the answer is again an error and no data. In both
  cases the error is not looked at, and signup inserts a further row with the same email
  and reports success.
\<close>

theorem signup_duplicate_email_inserts:
  "eq_filter ''email'' (carol ''email'') twin \<and>
   eq_filter ''email'' (carol ''email'') (twin(''id'' \<mapsto> JNum 2)) \<and>
   email_lookup toy_env \<lparr>rows = [twin, twin(''id'' \<mapsto> JNum 2)]\<rparr> (carol ''email'')
     = failed pgrst116 \<and>
   fst (signupUser toy_env \<lparr>rows = [twin, twin(''id'' \<mapsto> JNum 2)]\<rparr> carol)
     = Message ''Signup successful, awaiting approval'' \<and>
   map (\<lambda>r. r ''email'')
     (rows (snd (signupUser toy_env \<lparr>rows = [twin, twin(''id'' \<mapsto> JNum 2)]\<rparr> carol)))
     = [Some (JStr ''carol@example.org''), Some (JStr ''carol@example.org''),
        Some (JStr ''carol@example.org'')] \<and>
   email_lookup (toy_env\<lparr>lookup_fault := Some down\<rparr>) \<lparr>rows = [twin]\<rparr> (carol ''email'')
     = failed down \<and>
   fst (signupUser (toy_env\<lparr>lookup_fault := Some down\<rparr>) \<lparr>rows = [twin]\<rparr> carol)
     = Message ''Signup successful, awaiting approval'' \<and>
   map (\<lambda>r. r ''email'')
     (rows (snd (signupUser (toy_env\<lparr>lookup_fault := Some down\<rparr>) \<lparr>rows = [twin]\<rparr> carol)))
     = [Some (JStr ''carol@example.org''), Some (JStr ''carol@example.org'')]"
proof -
  let ?two = "\<lparr>rows = [twin, twin(''id'' \<mapsto> JNum 2)]\<rparr>"
  let ?one = "\<lparr>rows = [twin]\<rparr>"
  let ?ev = "toy_env\<lparr>lookup_fault := Some down\<rparr>"
  have both: "eq_filter ''email'' (carol ''email'') twin"
    "eq_filter ''email'' (carol ''email'') (twin(''id'' \<mapsto> JNum 2))"
    by (simp_all add: eq_filter_def twin_def carol_def)
  then have lookup: "email_lookup toy_env ?two (carol ''email'') = failed pgrst116"
    by (simp add: email_lookup_def maybeSingle_def select_where_def ok_def toy_fields)
  have lookup': "email_lookup ?ev ?one (carol ''email'') = failed down"
    by (simp add: email_lookup_def maybeSingle_def select_where_def failed_def)
  have given: "carol ''password'' = Some (JStr ''secret'')"
    "carol ''email'' = Some (JStr ''carol@example.org'')"
    "twin ''email'' = Some (JStr ''carol@example.org'')"
    by (simp_all add: carol_def twin_def)
  have third: "signupUser toy_env ?two carol
      = (Message ''Signup successful, awaiting approval'',
         ?two\<lparr>rows := rows ?two @ [new_record toy_env carol
           (''$2b$12$'' @ salt toy_env @ digest toy_env (''$2b$12$'' @ salt toy_env) ''secret'')]\<rparr>)"
  proof (rule signup_inserts)
    show "data (email_lookup toy_env ?two (carol ''email'')) = None"
      by (simp add: lookup failed_def)
  qed (simp_all add: toy_fields given)
  have second: "signupUser ?ev ?one carol
      = (Message ''Signup successful, awaiting approval'',
         ?one\<lparr>rows := rows ?one @ [new_record ?ev carol
           (''$2b$12$'' @ salt ?ev @ digest ?ev (''$2b$12$'' @ salt ?ev) ''secret'')]\<rparr>)"
  proof (rule signup_inserts)
    show "data (email_lookup ?ev ?one (carol ''email'')) = None"
      by (simp add: lookup' failed_def)
  qed (simp_all add: toy_fields given)
  have rows3: "map (\<lambda>r. r ''email'') (rows (snd (signupUser toy_env ?two carol)))
      = [Some (JStr ''carol@example.org''), Some (JStr ''carol@example.org''),
         Some (JStr ''carol@example.org'')]"
    and rows2: "map (\<lambda>r. r ''email'') (rows (snd (signupUser ?ev ?one carol)))
      = [Some (JStr ''carol@example.org''), Some (JStr ''carol@example.org'')]"
    by (simp_all add: third second new_record_fields given)
  from both lookup lookup' rows3 rows2 show ?thesis
    by (simp add: third second)
qed

lemma setMonth_same_day:
  "day t \<le> days_in_month (year t + m div 12) (nat (m mod 12)) \<Longrightarrow>
   setMonth t m = t\<lparr>year := year t + m div 12, month := nat (m mod 12)\<rparr>"
  by (simp add: setMonth_def roll.simps)

text \<open>
  C7 at a clock reading of 30 November 2025: the target month, February 2026, has 28
  days, \<open>setMonth\<close> runs on into March, and \<open>password_expire\<close> is 2 March 2026.
\<close>

theorem signup_expiry_runs_past_month_end:
  "clock toy_env = \<lparr>year = 2025, month = 10, day = 30, msec = 45296789\<rparr> \<and>
   map (\<lambda>r. (r ''password_fresh'', r ''password_expire''))
     (rows (snd (signupUser toy_env \<lparr>rows = []\<rparr> carol)))
     = [(Some (JStr ''2025-11-30T12:34:56.789Z''), Some (JStr ''2026-03-02T12:34:56.789Z''))]"
proof -
  let ?st = "\<lparr>rows = []\<rparr>"
  have pw: "carol ''password'' = Some (JStr ''secret'')"
    by (simp add: carol_def)
  have inserted: "signupUser toy_env ?st carol
      = (Message ''Signup successful, awaiting approval'',
         ?st\<lparr>rows := rows ?st @ [new_record toy_env carol
           (''$2b$12$'' @ salt toy_env @ digest toy_env (''$2b$12$'' @ salt toy_env) ''secret'')]\<rparr>)"
    by (rule signup_happy_path) (simp_all add: pw toy_fields)
  have now: "clock toy_env = \<lparr>year = 2025, month = 10, day = 30, msec = 45296789\<rparr>"
    by (simp add: toy_fields)
  have later: "setMonth (clock toy_env) (int (getMonth (clock toy_env)) + 3)
      = \<lparr>year = 2026, month = 2, day = 2, msec = 45296789\<rparr>"
    by (simp add: now setMonth_def getMonth_def roll.simps days_in_month_def leap_def)
  have fresh: "toISOString (clock toy_env) = ''2025-11-30T12:34:56.789Z''"
    by (simp add: now toISOString_def pad_def run)
  have expire: "toISOString \<lparr>year = 2026, month = 2, day = 2, msec = 45296789\<rparr>
      = ''2026-03-02T12:34:56.789Z''"
    by (simp add: toISOString_def pad_def run)
  show ?thesis
    by (simp add: inserted new_record_fields later fresh expire) (simp add: now)
qed

text \<open>
  C8 at the usernames \<open>b_b\<close> and \<open>%\<close>: both are patterns that match the stored username
  \<open>bob\<close>, and the login succeeds as \<open>bob\<close> although neither equals \<open>bob\<close> in any case.
\<close>

theorem login_wildcard_username:
  "toLowerCase ''b_b'' \<noteq> toLowerCase ''bob'' \<and>
   fst (loginUserByUsername toy_env \<lparr>rows = [alice, bob]\<rparr> ''b_b'' ''hunter2'')
     = LoginUser (bob(''password'' := None)) \<and>
   fst (loginUserByUsername toy_env \<lparr>rows = [bob]\<rparr> ''%'' ''hunter2'')
     = LoginUser (bob(''password'' := None))"
proof -
  have differ: "toLowerCase ''b_b'' \<noteq> toLowerCase ''bob''"
    by (simp add: run)
  have found: "username_lookup toy_env \<lparr>rows = [alice, bob]\<rparr> ''b_b'' = ok bob"
    "username_lookup toy_env \<lparr>rows = [bob]\<rparr> ''%'' = ok bob"
    by (simp_all add: username_lookup_def single_def select_where_def ok_def project_def
        ilike_filter_def alice_def bob_def toy_fields run)
  have legacy: "stored_credential bob = Some ''hunter2''" "bob ''approved'' = Some (JBool True)"
    by (simp_all add: stored_credential_def bob_def)
  show ?thesis
    by (simp add: differ loginUserByUsername_def found legacy ok_def verify_def isHashed_def
        startsWith_def toy_fields)
qed

section \<open>Account queries\<close>

lemma column_lookup_cases:
  "(lookup_fault ev = Some e \<longrightarrow> column_lookup ev st col email = failed e) \<and>
   (lookup_fault ev = None \<and> filter (eq_filter ''email'' (Some (JStr email))) (rows st) = [r] \<longrightarrow>
      column_lookup ev st col email = ok (r |` {col})) \<and>
   (lookup_fault ev = None \<and>
    length (filter (eq_filter ''email'' (Some (JStr email))) (rows st)) \<noteq> 1 \<longrightarrow>
      column_lookup ev st col email = failed pgrst116)"
  by (auto simp: column_lookup_def single_def select_where_def ok_def failed_def project_def
      split: list.splits)

text \<open>
  C9 (amended). \<open>getRole\<close> and \<open>isActive\<close> always return and never throw. When the
  lookup reports an error, the result is an error result that carries the message of that
  error, or the fixed text (\<open>Role not found\<close>, \<open>User not found\<close>) when the message is
  empty. The lookup with \<open>single\<close> reports an error when the request fails and also when the
  number of rows with the email is not one. When exactly one row has the email, the
  result is the requested column of that row.
\<close>

theorem account_queries_return:
  "(\<exists>x. getRole ev st email = Returned x) \<and> (\<exists>x. isActive ev st email = Returned x) \<and>
   (error (column_lookup ev st ''role'' email) = Some e \<longrightarrow>
      getRole ev st email
        = Returned (ColumnError (if message e = [] then ''Role not found'' else message e))) \<and>
   (error (column_lookup ev st ''active'' email) = Some e \<longrightarrow>
      isActive ev st email
        = Returned (ColumnError (if message e = [] then ''User not found'' else message e))) \<and>
   (lookup_fault ev = None \<and> filter (eq_filter ''email'' (Some (JStr email))) (rows st) = [r] \<longrightarrow>
      getRole ev st email = Returned (Column (r ''role'')) \<and>
      isActive ev st email = Returned (Column (r ''active''))) \<and>
   (lookup_fault ev = None \<and>
    length (filter (eq_filter ''email'' (Some (JStr email))) (rows st)) \<noteq> 1 \<longrightarrow>
      getRole ev st email = Returned (ColumnError (message pgrst116)) \<and>
      isActive ev st email = Returned (ColumnError (message pgrst116))) \<and>
   (lookup_fault ev = Some e \<and> message e \<noteq> [] \<longrightarrow>
      getRole ev st email = Returned (ColumnError (message e)) \<and>
      isActive ev st email = Returned (ColumnError (message e)))"
proof -
  have total: "\<exists>x. getRole ev st email = Returned x"
    and total': "\<exists>x. isActive ev st email = Returned x"
    by (auto simp: getRole_def isActive_def Let_def split: option.splits)
  have err: "error (column_lookup ev st ''role'' email) = Some e \<longrightarrow> getRole ev st email
      = Returned (ColumnError (if message e = [] then ''Role not found'' else message e))"
    for e
    by (simp add: getRole_def error_message_def)
  have err': "error (column_lookup ev st ''active'' email) = Some e \<longrightarrow> isActive ev st email
      = Returned (ColumnError (if message e = [] then ''User not found'' else message e))"
    for e
    by (simp add: isActive_def error_message_def)
  have row: "column_lookup ev st ''role'' email = ok d \<longrightarrow>
      getRole ev st email = Returned (Column (d ''role''))" for d
    by (simp add: getRole_def ok_def)
  have row': "column_lookup ev st ''active'' email = ok d \<longrightarrow>
      isActive ev st email = Returned (Column (d ''active''))" for d
    by (simp add: isActive_def ok_def)
  have one: "lookup_fault ev = None \<and>
      filter (eq_filter ''email'' (Some (JStr email))) (rows st) = [r] \<longrightarrow>
      getRole ev st email = Returned (Column (r ''role'')) \<and>
      isActive ev st email = Returned (Column (r ''active''))"
    using column_lookup_cases [where ev = ev and st = st and col = "''role''" and email = email and r = r]
      column_lookup_cases [where ev = ev and st = st and col = "''active''" and email = email and r = r]
      row [of "r |` {''role''}"] row' [of "r |` {''active''}"]
    by simp
  have none: "lookup_fault ev = None \<and>
      length (filter (eq_filter ''email'' (Some (JStr email))) (rows st)) \<noteq> 1 \<longrightarrow>
      getRole ev st email = Returned (ColumnError (message pgrst116)) \<and>
      isActive ev st email = Returned (ColumnError (message pgrst116))"
    using column_lookup_cases [where ev = ev and st = st and col = "''role''" and email = email]
      column_lookup_cases [where ev = ev and st = st and col = "''active''" and email = email] err [of pgrst116] err' [of pgrst116]
    by (simp add: failed_def pgrst116_def)
  have out: "lookup_fault ev = Some e \<and> message e \<noteq> [] \<longrightarrow>
      getRole ev st email = Returned (ColumnError (message e)) \<and>
      isActive ev st email = Returned (ColumnError (message e))"
    using column_lookup_cases [where ev = ev and st = st and e = e and col = "''role''" and email = email]
      column_lookup_cases [where ev = ev and st = st and e = e and col = "''active''" and email = email] err [of e] err' [of e]
    by (simp add: failed_def)
  show ?thesis
    by (intro conjI total total' err err' one none out)
qed

theorem account_queries_return_witness:
  "error (column_lookup (toy_env\<lparr>lookup_fault := Some down\<rparr>) \<lparr>rows = [alice, bob]\<rparr>
       ''role'' ''bob@example.org'')
     = Some down \<and>
   getRole (toy_env\<lparr>lookup_fault := Some down\<rparr>) \<lparr>rows = [alice, bob]\<rparr> ''bob@example.org''
     = Returned (ColumnError ''connection refused'') \<and>
   isActive (toy_env\<lparr>lookup_fault := Some down\<rparr>) \<lparr>rows = [alice, bob]\<rparr> ''bob@example.org''
     = Returned (ColumnError ''connection refused'') \<and>
   filter (eq_filter ''email'' (Some (JStr ''alice@example.org'')))
     (rows \<lparr>rows = [alice, bob]\<rparr>) = [alice] \<and>
   getRole toy_env \<lparr>rows = [alice, bob]\<rparr> ''alice@example.org''
     = Returned (Column (Some (JStr ''admin''))) \<and>
   isActive toy_env \<lparr>rows = [alice, bob]\<rparr> ''alice@example.org''
     = Returned (Column None) \<and>
   length (filter (eq_filter ''email'' (Some (JStr ''nobody@example.org'')))
     (rows \<lparr>rows = [alice, bob]\<rparr>)) \<noteq> 1 \<and>
   getRole toy_env \<lparr>rows = [alice, bob]\<rparr> ''nobody@example.org''
     = Returned (ColumnError ''JSON object requested, multiple (or no) rows returned'') \<and>
   isActive toy_env \<lparr>rows = [alice, bob]\<rparr> ''nobody@example.org''
     = Returned (ColumnError ''JSON object requested, multiple (or no) rows returned'')"
proof -
  let ?up = "\<lparr>rows = [alice, bob]\<rparr>"
  let ?off = "toy_env\<lparr>lookup_fault := Some down\<rparr>"
  have refused: "error (column_lookup ?off ?up ''role'' ''bob@example.org'') = Some down"
    "lookup_fault ?off = Some down \<and> message down \<noteq> []"
    by (simp_all add: column_lookup_def single_def select_where_def failed_def down_def)
  have working: "lookup_fault toy_env = None"
    by (simp add: toy_fields)
  have hers: "filter (eq_filter ''email'' (Some (JStr ''alice@example.org''))) (rows ?up) = [alice]"
    by (simp add: eq_filter_def alice_def bob_def)
  have nobody: "length (filter (eq_filter ''email'' (Some (JStr ''nobody@example.org'')))
      (rows ?up)) \<noteq> 1"
    by (simp add: eq_filter_def alice_def bob_def)
  have columns: "alice ''role'' = Some (JStr ''admin'')" "alice ''active'' = None"
    by (simp_all add: alice_def)
  note off = account_queries_return
    [where ev = ?off and st = ?up and email = "''bob@example.org''" and e = down]
  note one = account_queries_return
    [where ev = toy_env and st = ?up and email = "''alice@example.org''" and r = alice]
  note none = account_queries_return
    [where ev = toy_env and st = ?up and email = "''nobody@example.org''"]
  from off refused
  have 1: "getRole ?off ?up ''bob@example.org'' = Returned (ColumnError ''connection refused'')"
    "isActive ?off ?up ''bob@example.org'' = Returned (ColumnError ''connection refused'')"
    by (simp_all add: down_def)
  from one hers columns working
  have 2: "getRole toy_env ?up ''alice@example.org'' = Returned (Column (Some (JStr ''admin'')))"
    "isActive toy_env ?up ''alice@example.org'' = Returned (Column None)"
    by simp_all
  from none nobody working
  have 3: "getRole toy_env ?up ''nobody@example.org''
      = Returned (ColumnError ''JSON object requested, multiple (or no) rows returned'')"
    "isActive toy_env ?up ''nobody@example.org''
      = Returned (ColumnError ''JSON object requested, multiple (or no) rows returned'')"
    by (simp_all add: pgrst116_def)
  from refused(1) hers nobody 1 2 3 show ?thesis by blast
qed

text \<open>
  C9 as stated fails for an error of the store whose message is empty: the result is the
  fixed text, not the message of the store.
\<close>

theorem account_query_empty_message_counterexample:
  "error (column_lookup (toy_env\<lparr>lookup_fault := Some mute\<rparr>) \<lparr>rows = [bob]\<rparr>
       ''role'' ''bob@example.org'')
     = Some mute \<and>
   getRole (toy_env\<lparr>lookup_fault := Some mute\<rparr>) \<lparr>rows = [bob]\<rparr> ''bob@example.org''
     \<noteq> Returned (ColumnError (message mute)) \<and>
   getRole (toy_env\<lparr>lookup_fault := Some mute\<rparr>) \<lparr>rows = [bob]\<rparr> ''bob@example.org''
     = Returned (ColumnError ''Role not found'') \<and>
   isActive (toy_env\<lparr>lookup_fault := Some mute\<rparr>) \<lparr>rows = [bob]\<rparr> ''bob@example.org''
     = Returned (ColumnError ''User not found'')"
  by (simp add: getRole_def isActive_def column_lookup_def single_def select_where_def
      failed_def error_message_def mute_def)

end
